theory Spec2Isabelle
  imports Complex_Main
begin

section \<open>Data model\<close>

text \<open>
  The optimizer works on Eigen matrices and vectors of \<open>double\<close>. A matrix is the list of
  its rows, a vector the list of its coefficients. The properties below are about which
  values are stored where, never about rounding, so a \<open>double\<close> is a \<open>real\<close>.
\<close>

type_synonym vector = "real list"
type_synonym matrix = "real list list"

text \<open>\<open>MatrixXd::size()\<close> is rows times columns.\<close>

definition matrix_rows :: "matrix \<Rightarrow> nat" where
  "matrix_rows m = length m"

definition matrix_cols :: "matrix \<Rightarrow> nat" where
  "matrix_cols m = (case m of [] \<Rightarrow> 0 | r # _ \<Rightarrow> length r)"

definition matrix_size :: "matrix \<Rightarrow> nat" where
  "matrix_size m = matrix_rows m * matrix_cols m"

text \<open>\<open>DistributionGaussian\<close>: a mean vector and a covariance matrix.\<close>

record distribution =
  mean :: vector
  covar :: matrix

text \<open>Everything that ends a call abnormally.\<close>

datatype error =
    AssertionFailed  \<comment> \<open>an \<open>assert\<close> of the source, or one of Eigen's on a size or an index\<close>
  | FilesystemError  \<comment> \<open>the exception \<open>filesystem_error\<close> of Boost, which the source never catches\<close>

section \<open>The outside world: directories, files, \<open>cerr\<close> and \<open>cout\<close>\<close>

datatype file_data =
    MatrixXd matrix
  | VectorXd vector
  | VectorXi "int list"

datatype diagnostic =
    CouldntMakeDirectory string   \<comment> \<open>"Couldn't make directory file '...'."\<close>
  | CouldntSave string            \<comment> \<open>what \<open>saveMatrix\<close> reports about a file\<close>

datatype console_line =
    InitLine distribution               \<comment> \<open>"init  =    distribution=..."\<close>
  | UpdateLine real int distribution    \<comment> \<open>"cost_eval=..." and "i_update+1  distribution"\<close>

text \<open>
  \<open>files\<close> lists the writes that succeeded, oldest first and each under the path as the
  code spelled it. The other fields say how the file system answers: \<open>mkdir_throws\<close> are
  the directories it refuses to make (permissions, a file of that name), \<open>mkdir_false\<close>
  the directories that \<open>create_directories\<close> finds made by someone else, \<open>write_fails\<close>
  the files it refuses to write.
\<close>

record io =
  directories :: "string list"
  files :: "(string \<times> file_data) list"
  mkdir_throws :: "string set"
  mkdir_false :: "string set"
  write_fails :: "string set"
  cerr :: "diagnostic list"
  cout :: "console_line list"

text \<open>
  The file system takes a run of separators for one separator. The source itself spells
  the files of parallel distributions with two: \<open>dir\<close>, \<open>"/"\<close> and
  \<open>"/distribution_000_mean.txt"\<close>. Paths are compared after this respelling.
\<close>

fun collapse_slashes :: "string \<Rightarrow> string" where
  "collapse_slashes (a # b # s) =
     (if a = CHR ''/'' \<and> b = CHR ''/'' then collapse_slashes (b # s)
      else a # collapse_slashes (b # s))"
| "collapse_slashes s = s"

definition in_paths :: "string \<Rightarrow> string set \<Rightarrow> bool" where
  "in_paths p P = (collapse_slashes p \<in> collapse_slashes ` P)"

text \<open>\<open>boost::filesystem::exists\<close>.\<close>

definition path_exists :: "io \<Rightarrow> string \<Rightarrow> bool" where
  "path_exists w p = (in_paths p (set (directories w)) \<or> in_paths p (fst ` set (files w)))"

text \<open>
  \<open>boost::filesystem::create_directories(p)\<close>, the overload of one argument. On an error
  it throws \<open>filesystem_error\<close>. When it returns, \<open>p\<close> is a directory, and it returns
  true if it has made a new directory and false if it has not.
\<close>

definition create_directories :: "string \<Rightarrow> io \<Rightarrow> error + bool \<times> io" where
  "create_directories p w =
     (if in_paths p (mkdir_throws w) then Inl FilesystemError
      else Inr (\<not> in_paths p (mkdir_false w), w\<lparr>directories := directories w @ [p]\<rparr>))"

text \<open>
  Modelled from the spec: \<open>saveMatrix\<close> of \<open>dmpbbo_io/EigenFileIO.hpp\<close>, which is not
  among the sources. The spec's \<open>writeMatrix(dir, filename, matrix, overwrite)\<close>: it fails
  (and does not skip) when the file exists and \<open>overwrite\<close> is false, it fails when the
  file cannot be written, every failure is reported, and otherwise the matrix is written
  to \<open>filename\<close> under \<open>dir\<close>.
\<close>

definition save_to :: "string \<Rightarrow> file_data \<Rightarrow> bool \<Rightarrow> io \<Rightarrow> bool \<times> io" where
  "save_to p data overwrite w =
     (if path_exists w p \<and> \<not> overwrite then (False, w\<lparr>cerr := cerr w @ [CouldntSave p]\<rparr>)
      else if in_paths p (write_fails w) then (False, w\<lparr>cerr := cerr w @ [CouldntSave p]\<rparr>)
      else (True, w\<lparr>files := files w @ [(p, data)]\<rparr>))"

definition saveMatrix :: "string \<Rightarrow> string \<Rightarrow> file_data \<Rightarrow> bool \<Rightarrow> io \<Rightarrow> bool \<times> io" where
  "saveMatrix directory filename data overwrite w =
     save_to (directory @ ''/'' @ filename) data overwrite w"

subsection \<open>Formatting an index: \<open>setw(n) << setfill('0') << i\<close>\<close>

definition digit_char :: "nat \<Rightarrow> char" where
  "digit_char d = ''0123456789'' ! d"

fun decimal :: "nat \<Rightarrow> string" where
  "decimal n = (if n < 10 then [digit_char n] else decimal (n div 10) @ [digit_char (n mod 10)])"

declare decimal.simps [simp del]

definition print_int :: "int \<Rightarrow> string" where
  "print_int i = (if i < 0 then CHR ''-'' # decimal (nat (- i)) else decimal (nat i))"

text \<open>
  \<open>setw\<close> is a minimum width: a longer text is not cut. The fill goes to the left (the
  stream's default adjustment).
\<close>

definition setw_setfill :: "nat \<Rightarrow> char \<Rightarrow> string \<Rightarrow> string" where
  "setw_setfill n c s = replicate (n - length s) c @ s"

section \<open>\<open>saveToDirectory\<close>\<close>

text \<open>
  \<open>if (!step) return false; rest\<close>: the rest runs only after a step that returned true.
\<close>

definition and_then :: "(io \<Rightarrow> bool \<times> io) \<Rightarrow> (io \<Rightarrow> bool \<times> io) \<Rightarrow> io \<Rightarrow> bool \<times> io" where
  "and_then step rest w = (case step w of (True, w') \<Rightarrow> rest w' | (False, w') \<Rightarrow> (False, w'))"

definition return_true :: "io \<Rightarrow> bool \<times> io" where
  "return_true w = (True, w)"

text \<open>Lines 59-67 and 74-82: make the directory if it doesn't already exist.\<close>

definition make_directory :: "string \<Rightarrow> io \<Rightarrow> error + bool \<times> io" where
  "make_directory directory w =
     (if \<not> path_exists w directory then
        (case create_directories directory w of
           Inl e \<Rightarrow> Inl e
         | Inr (False, w') \<Rightarrow> Inr (False, w'\<lparr>cerr := cerr w' @ [CouldntMakeDirectory directory]\<rparr>)
         | Inr (True, w') \<Rightarrow> Inr (True, w'))
      else Inr (True, w))"

text \<open>
  The two loops over \<open>dd\<close> (lines 99-108 and 130-139); \<open>label\<close> is \<open>"/distribution_"\<close> in
  the first and \<open>"/distribution_new_"\<close> in the second, \<open>n\<close> is \<open>distributions.size()\<close>
  in both.
\<close>

function save_parallel ::
  "string \<Rightarrow> string \<Rightarrow> distribution list \<Rightarrow> nat \<Rightarrow> nat \<Rightarrow> bool \<Rightarrow> io \<Rightarrow> bool \<times> io" where
  "save_parallel dir label ds n dd ow =
     (if dd < n then
        and_then (saveMatrix dir ((label @ setw_setfill 3 CHR ''0'' (decimal dd)) @ ''_mean.txt'')
                    (VectorXd (mean (ds ! dd))) ow)
       (and_then (saveMatrix dir ((label @ setw_setfill 3 CHR ''0'' (decimal dd)) @ ''_covar.txt'')
                    (MatrixXd (covar (ds ! dd))) ow)
       (save_parallel dir label ds n (Suc dd) ow))
      else return_true)"
  by pat_completeness auto
termination
  by (relation "measure (\<lambda>(dir, label, ds, n, dd, ow). n - dd)") auto

declare save_parallel.simps [simp del]

text \<open>Lines 90-141, with \<open>dir\<close> the update's directory and \<open>ow\<close> the overwrite flag.\<close>

definition save_files ::
  "string \<Rightarrow> distribution list \<Rightarrow> real option \<Rightarrow> matrix \<Rightarrow> vector \<Rightarrow> vector \<Rightarrow>
   distribution list \<Rightarrow> bool \<Rightarrow> io \<Rightarrow> bool \<times> io" where
  "save_files dir distributions cost_eval samples costs weights distributions_new ow =
     and_then
       (if length distributions = 1 then
          and_then (saveMatrix dir ''distribution_mean.txt'' (VectorXd (mean (distributions ! 0))) ow)
                   (saveMatrix dir ''distribution_covar.txt'' (MatrixXd (covar (distributions ! 0))) ow)
        else
          and_then (saveMatrix dir ''n_parallel.txt'' (VectorXi [int (length distributions)]) ow)
                   (save_parallel dir ''/distribution_'' distributions (length distributions) 0 ow))
    (and_then
       (case cost_eval of
          None \<Rightarrow> return_true
        | Some c \<Rightarrow> saveMatrix dir ''cost_eval.txt'' (VectorXd [c]) ow)
    (and_then
       (if matrix_size samples > 0 then saveMatrix dir ''samples.txt'' (MatrixXd samples) ow
        else return_true)
    (and_then
       (if length costs > 0 then saveMatrix dir ''costs.txt'' (VectorXd costs) ow
        else return_true)
    (and_then
       (if length weights > 0 then saveMatrix dir ''weights.txt'' (VectorXd weights) ow
        else return_true)
       (if length distributions = 1 then
          and_then (saveMatrix dir ''distribution_new_mean.txt'' (VectorXd (mean (distributions_new ! 0))) ow)
                   (saveMatrix dir ''distribution_new_covar.txt'' (MatrixXd (covar (distributions_new ! 0))) ow)
        else
          save_parallel dir ''/distribution_new_'' distributions_new (length distributions) 0 ow)))))"

text \<open>
  The overload on vectors of distributions (line 56). \<open>cost_eval\<close> is a pointer that may
  be \<open>NULL\<close>. The assertion on the two sizes comes after both directories.
\<close>

definition saveToDirectory ::
  "string \<Rightarrow> int \<Rightarrow> distribution list \<Rightarrow> real option \<Rightarrow> matrix \<Rightarrow> vector \<Rightarrow> vector \<Rightarrow>
   distribution list \<Rightarrow> bool \<Rightarrow> io \<Rightarrow> error + bool \<times> io" where
  "saveToDirectory directory i_update distributions cost_eval samples costs weights
       distributions_new overwrite w =
     (case make_directory directory w of
        Inl e \<Rightarrow> Inl e
      | Inr (False, w1) \<Rightarrow> Inr (False, w1)
      | Inr (True, w1) \<Rightarrow>
          (let dir_update = directory @ ''/update'' @ setw_setfill 5 CHR ''0'' (print_int i_update) in
           case make_directory dir_update w1 of
             Inl e \<Rightarrow> Inl e
           | Inr (False, w2) \<Rightarrow> Inr (False, w2)
           | Inr (True, w2) \<Rightarrow>
               if length distributions \<noteq> length distributions_new then Inl AssertionFailed
               else Inr (save_files dir_update distributions cost_eval samples costs weights
                           distributions_new overwrite w2)))"

text \<open>The overload on one distribution (line 45).\<close>

definition saveToDirectory1 ::
  "string \<Rightarrow> int \<Rightarrow> distribution \<Rightarrow> real option \<Rightarrow> matrix \<Rightarrow> vector \<Rightarrow> vector \<Rightarrow>
   distribution \<Rightarrow> bool \<Rightarrow> io \<Rightarrow> error + bool \<times> io" where
  "saveToDirectory1 directory i_update distribution cost_eval samples costs weights
       distribution_new overwrite w =
     saveToDirectory directory i_update [distribution] cost_eval samples costs weights
       [distribution_new] overwrite w"


section \<open>The checkpoint layout of the spec\<close>

text \<open>
  The spec (section 6) gives the layout of an update's directory as a list of files. The
  definitions of this section follow the spec's words; \<open>save_files\<close> above follows the
  source, and the two are compared below.
\<close>

definition in_dir :: "string \<Rightarrow> string \<times> file_data \<Rightarrow> string \<times> file_data" where
  "in_dir dir e = (dir @ ''/'' @ fst e, snd e)"

text \<open>Writing a list of files in order, stopping at the first that fails.\<close>

fun save_all :: "string \<Rightarrow> bool \<Rightarrow> (string \<times> file_data) list \<Rightarrow> io \<Rightarrow> bool \<times> io" where
  "save_all dir ow [] = return_true"
| "save_all dir ow (e # es) = and_then (saveMatrix dir (fst e) (snd e) ow) (save_all dir ow es)"

definition single_files :: "string \<Rightarrow> distribution \<Rightarrow> (string \<times> file_data) list" where
  "single_files name d =
     [(name @ ''_mean.txt'', VectorXd (mean d)), (name @ ''_covar.txt'', MatrixXd (covar d))]"

definition indexed_files :: "string \<Rightarrow> distribution list \<Rightarrow> nat \<Rightarrow> (string \<times> file_data) list" where
  "indexed_files label ds dd =
     [(label @ setw_setfill 3 CHR ''0'' (decimal dd) @ ''_mean.txt'', VectorXd (mean (ds ! dd))),
      (label @ setw_setfill 3 CHR ''0'' (decimal dd) @ ''_covar.txt'', MatrixXd (covar (ds ! dd)))]"

definition parallel_files :: "string \<Rightarrow> distribution list \<Rightarrow> (string \<times> file_data) list" where
  "parallel_files label ds = concat (map (indexed_files label ds) [0..<length ds])"

definition optional_files ::
  "real option \<Rightarrow> matrix \<Rightarrow> vector \<Rightarrow> vector \<Rightarrow> (string \<times> file_data) list" where
  "optional_files cost_eval samples costs weights =
     (case cost_eval of None \<Rightarrow> [] | Some c \<Rightarrow> [(''cost_eval.txt'', VectorXd [c])]) @
     (if matrix_size samples = 0 then [] else [(''samples.txt'', MatrixXd samples)]) @
     (if length costs = 0 then [] else [(''costs.txt'', VectorXd costs)]) @
     (if length weights = 0 then [] else [(''weights.txt'', VectorXd weights)])"

definition checkpoint_files ::
  "distribution list \<Rightarrow> real option \<Rightarrow> matrix \<Rightarrow> vector \<Rightarrow> vector \<Rightarrow> distribution list \<Rightarrow>
   (string \<times> file_data) list" where
  "checkpoint_files ds cost_eval samples costs weights ds_new =
     (if length ds = 1 then single_files ''distribution'' (ds ! 0)
      else (''n_parallel.txt'', VectorXi [int (length ds)]) # parallel_files ''/distribution_'' ds) @
     optional_files cost_eval samples costs weights @
     (if length ds = 1 then single_files ''distribution_new'' (ds_new ! 0)
      else parallel_files ''/distribution_new_'' ds_new)"

definition update_directory :: "string \<Rightarrow> int \<Rightarrow> string" where
  "update_directory directory i_update =
     directory @ ''/update'' @ replicate (5 - length (print_int i_update)) CHR ''0'' @ print_int i_update"

section \<open>\<open>int\<close> arithmetic\<close>

text \<open>
  An \<open>int\<close> has 32 bits. A sum or product outside its range is undefined in C++; the
  compilers the library is built with compute it in two's complement, and so does the
  model: \<open>as_int\<close> is the value that the 32 low bits of \<open>x\<close> stand for.
\<close>

definition as_int :: "int \<Rightarrow> int" where
  "as_int x = (x + 2 ^ 31) mod 2 ^ 32 - 2 ^ 31"

definition int_times :: "int \<Rightarrow> int \<Rightarrow> int" where
  "int_times a b = as_int (a * b)"


section \<open>\<open>TaskSolverDmp::performRollouts\<close>\<close>















section \<open>\<open>runOptimization\<close>\<close>

text \<open>
  The cost function, the distribution's sampler and the updater are behind interfaces
  whose implementations are not part of the loop. They are parameters of the model. Each
  call takes and returns a hidden state \<open>'h\<close>, which stands for whatever these objects
  keep between calls: the random number generator above all, but also a noisy cost.

  \<open>updateDistribution\<close> receives \<open>weights\<close> and \<open>distribution_new\<close> by reference: it is
  given their old values and returns the new ones. \<open>default_overwrite\<close> is the default
  value of \<open>saveToDirectory\<close>'s last parameter, declared in a header that is not among
  the sources. \<open>uninitialized\<close> is what a \<open>double\<close> holds before its first assignment.
\<close>

record 'h environment =
  evaluate :: "vector \<Rightarrow> 'h \<Rightarrow> real \<times> 'h"
  generateSamples :: "distribution \<Rightarrow> int \<Rightarrow> 'h \<Rightarrow> matrix \<times> 'h"
  maxEigenValue :: "distribution \<Rightarrow> real"
  updateDistribution ::
    "distribution \<Rightarrow> matrix \<Rightarrow> vector \<Rightarrow> vector \<Rightarrow> distribution \<Rightarrow> 'h \<Rightarrow>
     (vector \<times> distribution) \<times> 'h"
  default_overwrite :: bool
  uninitialized :: real

text \<open>The parameters of \<open>runOptimization\<close> that are plain data.\<close>

record arguments =
  initial_distribution :: distribution
  n_updates :: int
  n_samples_per_update :: int
  save_directory :: string
  overwrite :: bool
  only_learning_curve :: bool

text \<open>
  The calls the loop makes to its collaborators, in order, each with its arguments and
  what it returned.
\<close>

datatype event =
    is_EvaluateMean: EvaluateMean vector real
      \<comment> \<open>line 176: the mean and its cost\<close>
  | GenerateSamples distribution int matrix
      \<comment> \<open>line 179: the distribution, the number asked for, the samples\<close>
  | EvaluateSample nat vector real
      \<comment> \<open>line 183: \<open>i_sample\<close>, the row and its cost\<close>
  | UpdateDistribution distribution matrix vector vector distribution
      \<comment> \<open>line 186: the distribution, the samples and the costs given; the weights and the
          new distribution returned\<close>

text \<open>The local variables of \<open>runOptimization\<close>, the hidden state, the outside world.\<close>

record 'h loop_state =
  distribution :: distribution
  distribution_new :: distribution
  cost_eval :: real
  samples :: matrix
  costs :: vector
  weights :: vector
  learning_curve :: matrix
  hidden :: 'h
  world :: io
  calls :: "event list"

text \<open>Line 176: the cost of the current distribution's mean.\<close>

definition evaluate_mean :: "'h environment \<Rightarrow> 'h loop_state \<Rightarrow> 'h loop_state" where
  "evaluate_mean E st =
     (case evaluate E (mean (distribution st)) (hidden st) of
        (c, h') \<Rightarrow>
          st\<lparr>cost_eval := c, hidden := h',
             calls := calls st @ [EvaluateMean (mean (distribution st)) c]\<rparr>)"

text \<open>Line 179: sample from the distribution.\<close>

definition draw_samples :: "'h environment \<Rightarrow> arguments \<Rightarrow> 'h loop_state \<Rightarrow> 'h loop_state" where
  "draw_samples E A st =
     (case generateSamples E (distribution st) (n_samples_per_update A) (hidden st) of
        (s, h') \<Rightarrow>
          st\<lparr>samples := s, hidden := h',
             calls := calls st @ [GenerateSamples (distribution st) (n_samples_per_update A) s]\<rparr>)"

text \<open>
  Lines 182-183: the cost of each sample. The counter starts at 0 and stays below
  \<open>n_samples_per_update\<close>, so it is a natural number that never overflows. A row or a
  coefficient that does not exist stops Eigen's index assertion.
\<close>

function evaluate_samples ::
  "'h environment \<Rightarrow> arguments \<Rightarrow> nat \<Rightarrow> 'h loop_state \<Rightarrow> error + 'h loop_state" where
  "evaluate_samples E A i_sample st =
     (if int i_sample < n_samples_per_update A then
        if i_sample < matrix_rows (samples st) \<and> i_sample < length (costs st) then
          (case evaluate E (samples st ! i_sample) (hidden st) of
             (c, h') \<Rightarrow>
               evaluate_samples E A (Suc i_sample)
                 (st\<lparr>costs := (costs st)[i_sample := c], hidden := h',
                    calls := calls st @ [EvaluateSample i_sample (samples st ! i_sample) c]\<rparr>))
        else Inl AssertionFailed
      else Inr st)"
  by pat_completeness auto
termination
  by (relation "measure (\<lambda>(E, A, i_sample, st). nat (n_samples_per_update A) - i_sample)") auto

declare evaluate_samples.simps [simp del]

text \<open>Line 186: update the parameters.\<close>

definition update :: "'h environment \<Rightarrow> 'h loop_state \<Rightarrow> 'h loop_state" where
  "update E st =
     (case updateDistribution E (distribution st) (samples st) (costs st) (weights st)
             (distribution_new st) (hidden st) of
        ((wts, d_new), h') \<Rightarrow>
          st\<lparr>weights := wts, distribution_new := d_new, hidden := h',
             calls := calls st @
               [UpdateDistribution (distribution st) (samples st) (costs st) wts d_new]\<rparr>)"

text \<open>\<open>m(i, j) = v\<close>, with Eigen's index assertion.\<close>

definition set_coeff :: "matrix \<Rightarrow> nat \<Rightarrow> nat \<Rightarrow> real \<Rightarrow> error + matrix" where
  "set_coeff m i j v =
     (if i < matrix_rows m \<and> j < length (m ! i) then Inr (m[i := (m ! i)[j := v]])
      else Inl AssertionFailed)"

text \<open>Lines 198-200: the row of the learning curve.\<close>

definition update_learning_curve ::
  "'h environment \<Rightarrow> arguments \<Rightarrow> nat \<Rightarrow> 'h loop_state \<Rightarrow> error + 'h loop_state" where
  "update_learning_curve E A i_update st =
     (case set_coeff (learning_curve st) i_update 0
             (of_int (int_times (int i_update) (n_samples_per_update A))) of
        Inl e \<Rightarrow> Inl e
      | Inr m0 \<Rightarrow>
          (case set_coeff m0 i_update 1 (cost_eval st) of
             Inl e \<Rightarrow> Inl e
           | Inr m1 \<Rightarrow>
               (case set_coeff m1 i_update 2 (sqrt (maxEigenValue E (distribution st))) of
                  Inl e \<Rightarrow> Inl e
                | Inr m2 \<Rightarrow> Inr (st\<lparr>learning_curve := m2\<rparr>))))"

text \<open>
  Lines 191-206. The call of \<open>saveToDirectory\<close> passes no \<open>overwrite\<close>, so the default
  of the declaration applies, and what the call returns is not looked at.
\<close>

definition bookkeeping ::
  "'h environment \<Rightarrow> arguments \<Rightarrow> nat \<Rightarrow> 'h loop_state \<Rightarrow> error + 'h loop_state" where
  "bookkeeping E A i_update st =
     (if save_directory A = [] then
        Inr (st\<lparr>world := (world st)\<lparr>cout := cout (world st) @
               [UpdateLine (cost_eval st) (int i_update + 1) (distribution st)]\<rparr>\<rparr>)
      else
        (case update_learning_curve E A i_update st of
           Inl e \<Rightarrow> Inl e
         | Inr st1 \<Rightarrow>
             if \<not> only_learning_curve A then
               (case saveToDirectory1 (save_directory A) (int i_update) (distribution st1)
                       (Some (cost_eval st1)) (samples st1) (costs st1) (weights st1)
                       (distribution_new st1) (default_overwrite E) (world st1) of
                  Inl e \<Rightarrow> Inl e
                | Inr (saved, w') \<Rightarrow> Inr (st1\<lparr>world := w'\<rparr>))
             else Inr st1))"

text \<open>Lines 175-209: one pass of the optimization loop.\<close>

definition update_step ::
  "'h environment \<Rightarrow> arguments \<Rightarrow> nat \<Rightarrow> 'h loop_state \<Rightarrow> error + 'h loop_state" where
  "update_step E A i_update st =
     (case evaluate_samples E A 0 (draw_samples E A (evaluate_mean E st)) of
        Inl e \<Rightarrow> Inl e
      | Inr st2 \<Rightarrow>
          (case bookkeeping E A i_update (update E st2) of
             Inl e \<Rightarrow> Inl e
           | Inr st4 \<Rightarrow> Inr (st4\<lparr>distribution := distribution_new st4\<rparr>)))"

text \<open>Lines 173-211. The counter stays below \<open>n_updates\<close>, so it never overflows.\<close>

function optimization_loop ::
  "'h environment \<Rightarrow> arguments \<Rightarrow> nat \<Rightarrow> 'h loop_state \<Rightarrow> error + 'h loop_state" where
  "optimization_loop E A i_update st =
     (if int i_update < n_updates A then
        (case update_step E A i_update st of
           Inl e \<Rightarrow> Inl e
         | Inr st' \<Rightarrow> optimization_loop E A (Suc i_update) st')
      else Inr st)"
  by pat_completeness auto
termination
  by (relation "measure (\<lambda>(E, A, i_update, st). nat (n_updates A) - i_update)") auto

declare optimization_loop.simps [simp del]

text \<open>
  Lines 157-170: the variables before the loop. Eigen asserts that the size of
  \<open>costs\<close> and the number of rows of \<open>learning_curve\<close> are not negative; the model is of
  a build with assertions, as for the \<open>assert\<close> of \<open>saveToDirectory\<close>.
\<close>

definition initial_state ::
  "'h environment \<Rightarrow> arguments \<Rightarrow> 'h \<Rightarrow> io \<Rightarrow> error + 'h loop_state" where
  "initial_state E A h w =
     (if n_samples_per_update A < 0 then Inl AssertionFailed
      else if n_updates A < 0 then Inl AssertionFailed
      else Inr \<lparr>distribution = initial_distribution A,
                distribution_new = initial_distribution A,
                cost_eval = uninitialized E,
                samples = [],
                costs = replicate (nat (n_samples_per_update A)) (uninitialized E),
                weights = [],
                learning_curve = replicate (nat (n_updates A))
                  [uninitialized E, uninitialized E, uninitialized E],
                hidden = h,
                world = (if save_directory A = []
                         then w\<lparr>cout := cout w @ [InitLine (initial_distribution A)]\<rparr> else w),
                calls = []\<rparr>)"

text \<open>Lines 157-211: the state in which the loop ends.\<close>

definition run_loop :: "'h environment \<Rightarrow> arguments \<Rightarrow> 'h \<Rightarrow> io \<Rightarrow> error + 'h loop_state" where
  "run_loop E A h w =
     (case initial_state E A h w of
        Inl e \<Rightarrow> Inl e
      | Inr st \<Rightarrow> optimization_loop E A 0 st)"

text \<open>
  \<open>runOptimization\<close> returns \<open>void\<close>. What it leaves to its caller is the outside world
  and the hidden state of the collaborators; the local variables are gone.
\<close>

definition runOptimization :: "'h environment \<Rightarrow> arguments \<Rightarrow> 'h \<Rightarrow> io \<Rightarrow> error + io \<times> 'h" where
  "runOptimization E A h w =
     (case run_loop E A h w of
        Inl e \<Rightarrow> Inl e
      | Inr st \<Rightarrow>
          if save_directory A \<noteq> [] then
            Inr (snd (saveMatrix (save_directory A) ''learning_curve.txt''
                        (MatrixXd (learning_curve st)) (overwrite A) (world st)), hidden st)
          else Inr (world st, hidden st))"

text \<open>
  The state after the first \<open>k\<close> passes of the loop. It names the state "after update
  \<open>i\<close>" in the properties below; \<open>run_loop\<close> is this state for \<open>k = n_updates\<close>.
\<close>

primrec after_updates ::
  "'h environment \<Rightarrow> arguments \<Rightarrow> 'h \<Rightarrow> io \<Rightarrow> nat \<Rightarrow> error + 'h loop_state" where
  "after_updates E A h w 0 = initial_state E A h w"
| "after_updates E A h w (Suc k) =
     (case after_updates E A h w k of
        Inl e \<Rightarrow> Inl e
      | Inr st \<Rightarrow> update_step E A k st)"

text \<open>
  The \<open>k\<close> last decimal digits of \<open>n\<close>, most significant first: what a width of \<open>k\<close>
  filled with \<open>'0'\<close> prints for an index below \<open>10 ^ k\<close>.
\<close>

primrec last_digits :: "nat \<Rightarrow> nat \<Rightarrow> string" where
  "last_digits 0 n = []"
| "last_digits (Suc k) n = last_digits k (n div 10) @ [digit_char (n mod 10)]"

text \<open>Reading a number back from its digits.\<close>

definition digit_value :: "char \<Rightarrow> nat" where
  "digit_value c = length (takeWhile (\<lambda>d. d \<noteq> c) ''0123456789'')"

definition digits_value :: "string \<Rightarrow> nat" where
  "digits_value s = foldl (\<lambda>a c. 10 * a + digit_value c) 0 s"

definition all_digits :: "string \<Rightarrow> bool" where
  "all_digits s = list_all (\<lambda>c. c \<in> set ''0123456789'') s"

text \<open>
  \<open>wrote w w' es\<close>: from \<open>w\<close> to \<open>w'\<close> exactly the files \<open>es\<close> were written, in this
  order, and nothing was reported.
\<close>

definition wrote :: "io \<Rightarrow> io \<Rightarrow> (string \<times> file_data) list \<Rightarrow> bool" where
  "wrote w w' es = (w' = w\<lparr>files := files w @ es\<rparr>)"

text \<open>What a call added to the files and to \<open>cerr\<close>.\<close>

definition written_by :: "io \<Rightarrow> io \<Rightarrow> (string \<times> file_data) list" where
  "written_by w w' = drop (length (files w)) (files w')"

definition reported_by :: "io \<Rightarrow> io \<Rightarrow> diagnostic list" where
  "reported_by w w' = drop (length (cerr w)) (cerr w')"

section \<open>Example inputs\<close>

definition standard_normal :: distribution where
  "standard_normal = \<lparr>mean = [0, 0], covar = [[1, 0], [0, 1]]\<rparr>"

definition shifted_normal :: distribution where
  "shifted_normal = \<lparr>mean = [1, 2], covar = [[1, 0], [0, 1]]\<rparr>"

definition empty_disk :: io where
  "empty_disk = \<lparr>directories = [], files = [], mkdir_throws = {}, mkdir_false = {}, write_fails = {},
                  cerr = [], cout = []\<rparr>"

text \<open>A disk that refuses one file, and a directory that already holds a checkpoint file.\<close>

definition full_disk :: io where
  "full_disk = empty_disk\<lparr>write_fails := {''out/update00007/cost_eval.txt''}\<rparr>"

definition used_disk :: io where
  "used_disk = empty_disk\<lparr>directories := [''out'', ''out/update00007''],
     files := [(''out/update00007/distribution_mean.txt'', VectorXd [9])]\<rparr>"

text \<open>
  A disk on which the root directory cannot be made, one on which somebody else makes it
  between the test and the call, and a directory that holds a file of a parallel
  checkpoint under its usual spelling.
\<close>

definition locked_disk :: io where
  "locked_disk = empty_disk\<lparr>mkdir_throws := {''out''}\<rparr>"

definition raced_disk :: io where
  "raced_disk = empty_disk\<lparr>mkdir_false := {''out''}\<rparr>"

definition used_parallel_disk :: io where
  "used_parallel_disk = empty_disk\<lparr>directories := [''out'', ''out/update00007''],
     files := [(''out/update00007/distribution_000_mean.txt'', VectorXd [9])]\<rparr>"

text \<open>
  The sizes that the declarations give to \<open>costs\<close> and to \<open>learning_curve\<close>; nothing in
  the loop changes them.
\<close>

definition well_sized :: "arguments \<Rightarrow> 'h loop_state \<Rightarrow> bool" where
  "well_sized A st \<longleftrightarrow>
     length (costs st) = nat (n_samples_per_update A) \<and>
     length (learning_curve st) = nat (n_updates A) \<and>
     list_all (\<lambda>r. length r = 3) (learning_curve st)"

text \<open>The row of the learning curve for a pass that starts in state \<open>st\<close>.\<close>

definition learning_curve_row :: "'h environment \<Rightarrow> arguments \<Rightarrow> nat \<Rightarrow> 'h loop_state \<Rightarrow> vector" where
  "learning_curve_row E A i st =
     [of_int (int_times (int i) (n_samples_per_update A)),
      fst (evaluate E (mean (distribution st)) (hidden st)),
      sqrt (maxEigenValue E (distribution st))]"

text \<open>
  What the loop expects of \<open>generateSamples\<close>: a matrix with a row for each sample asked
  for.
\<close>

definition sampler_fills :: "'h environment \<Rightarrow> arguments \<Rightarrow> bool" where
  "sampler_fills E A \<longleftrightarrow>
     (\<forall>d h. nat (n_samples_per_update A) \<le>
              matrix_rows (fst (generateSamples E d (n_samples_per_update A) h)))"

text \<open>
  A cost function (the squared norm), a sampler without chance (every sample is the mean
  moved by one), an updater that halves the mean, and one that returns the distribution it
  was given. The hidden state counts the calls.
\<close>

definition sphere :: "vector \<Rightarrow> real" where
  "sphere v = sum_list (map (\<lambda>x. x * x) v)"

definition halving :: "nat environment" where
  "halving =
     \<lparr>evaluate = (\<lambda>v h. (sphere v, Suc h)),
      generateSamples = (\<lambda>d n h. (replicate (nat n) (map (\<lambda>x. x + 1) (mean d)), Suc h)),
      maxEigenValue = (\<lambda>d. hd (hd (covar d))),
      updateDistribution =
        (\<lambda>d s c wts d_new h. ((map (\<lambda>x. 1) c, d\<lparr>mean := map (\<lambda>x. x / 2) (mean d)\<rparr>), Suc h)),
      default_overwrite = False,
      uninitialized = 0\<rparr>"

definition idle :: "nat environment" where
  "idle = halving\<lparr>updateDistribution := (\<lambda>d s c wts d_new h. ((map (\<lambda>x. 1) c, d), Suc h))\<rparr>"

definition two_updates :: arguments where
  "two_updates =
     \<lparr>initial_distribution = shifted_normal, n_updates = 2, n_samples_per_update = 1,
      save_directory = ''out'', overwrite = False, only_learning_curve = False\<rparr>"

definition one_update_console :: arguments where
  "one_update_console = two_updates\<lparr>n_updates := 1, save_directory := []\<rparr>"

definition no_update_console :: arguments where
  "no_update_console = two_updates\<lparr>n_updates := 0, n_samples_per_update := 0, save_directory := []\<rparr>"

definition one_update :: arguments where
  "one_update = two_updates\<lparr>n_updates := 1\<rparr>"

text \<open>A run whose last pass starts after \<open>2 ^ 31\<close> samples.\<close>

definition long_run :: arguments where
  "long_run = two_updates\<lparr>n_updates := 65537, n_samples_per_update := 32768,
                only_learning_curve := True\<rparr>"

definition zero_samples :: arguments where
  "zero_samples = two_updates\<lparr>n_samples_per_update := 0\<rparr>"

definition negative_updates :: arguments where
  "negative_updates = two_updates\<lparr>n_updates := - 1\<rparr>"

text \<open>
  The disk after the first checkpoint of a run of \<open>halving\<close> from \<open>shifted_normal\<close>, and
  the state in which the loop of \<open>one_update\<close> ends on it.
\<close>

definition checkpointed_disk :: io where
  "checkpointed_disk =
     empty_disk\<lparr>directories := [''out'', ''out/update00000''],
       files := [(''out/update00000/distribution_mean.txt'', VectorXd [1, 2]),
                 (''out/update00000/distribution_covar.txt'', MatrixXd [[1, 0], [0, 1]]),
                 (''out/update00000/cost_eval.txt'', VectorXd [5]),
                 (''out/update00000/samples.txt'', MatrixXd [[2, 3]]),
                 (''out/update00000/costs.txt'', VectorXd [13]),
                 (''out/update00000/weights.txt'', VectorXd [1]),
                 (''out/update00000/distribution_new_mean.txt'', VectorXd [1 / 2, 1]),
                 (''out/update00000/distribution_new_covar.txt'', MatrixXd [[1, 0], [0, 1]])]\<rparr>"

definition one_update_end :: "nat loop_state" where
  "one_update_end =
     \<lparr>distribution = \<lparr>mean = [1 / 2, 1], covar = [[1, 0], [0, 1]]\<rparr>,
      distribution_new = \<lparr>mean = [1 / 2, 1], covar = [[1, 0], [0, 1]]\<rparr>,
      cost_eval = 5, samples = [[2, 3]], costs = [13], weights = [1],
      learning_curve = [[0, 5, 1]], hidden = 4, world = checkpointed_disk,
      calls = [EvaluateMean [1, 2] 5, GenerateSamples shifted_normal 1 [[2, 3]],
               EvaluateSample 0 [2, 3] 13,
               UpdateDistribution shifted_normal [[2, 3]] [13] [1]
                 \<lparr>mean = [1 / 2, 1], covar = [[1, 0], [0, 1]]\<rparr>]\<rparr>"

section \<open>The blocks of \<open>cost_vars\<close>\<close>









section \<open>Sequencing of the writes\<close>

lemma and_then_return_true [simp]: "and_then return_true rest = rest"
  by (rule ext) (simp add: and_then_def return_true_def)

lemma and_then_return_true_right [simp]: "and_then step return_true = step"
  by (rule ext) (auto simp: and_then_def return_true_def split: prod.splits bool.splits)

lemma and_then_assoc: "and_then (and_then a b) c = and_then a (and_then b c)"
  by (rule ext) (auto simp: and_then_def split: prod.splits bool.splits)

lemma save_all_append:
  "save_all dir ow (xs @ ys) = and_then (save_all dir ow xs) (save_all dir ow ys)"
  by (induction xs) (simp_all add: and_then_assoc)

lemma save_all_indexed_files:
  "save_all dir ow (indexed_files label ds dd) =
     and_then (saveMatrix dir ((label @ setw_setfill 3 CHR ''0'' (decimal dd)) @ ''_mean.txt'')
                 (VectorXd (mean (ds ! dd))) ow)
              (saveMatrix dir ((label @ setw_setfill 3 CHR ''0'' (decimal dd)) @ ''_covar.txt'')
                 (MatrixXd (covar (ds ! dd))) ow)"
  by (simp add: indexed_files_def)

lemma save_parallel_save_all:
  "save_parallel dir label ds n dd ow =
     save_all dir ow (concat (map (indexed_files label ds) [dd..<n]))"
proof (induction dir label ds n dd ow rule: save_parallel.induct)
  case (1 dir label ds n dd ow)
  show ?case
  proof (cases "dd < n")
    case True
    then have "[dd..<n] = dd # [Suc dd..<n]"
      by (simp add: upt_rec)
    then have "save_all dir ow (concat (map (indexed_files label ds) [dd..<n])) =
        and_then (save_all dir ow (indexed_files label ds dd))
          (save_all dir ow (concat (map (indexed_files label ds) [Suc dd..<n])))"
      by (simp add: save_all_append)
    with True "1.IH" show ?thesis
      by (subst save_parallel.simps) (simp add: save_all_indexed_files and_then_assoc)
  next
    case False
    then show ?thesis
      by (subst save_parallel.simps) simp
  qed
qed

lemma indexed_files_cong:
  "n = length ds \<Longrightarrow>
   concat (map (indexed_files label ds) [0..<n]) = parallel_files label ds"
  by (simp add: parallel_files_def)

lemma save_files_layout:
  assumes "length distributions = length distributions_new"
  shows "save_files dir distributions ce xs cs ws distributions_new ow =
         save_all dir ow
           (checkpoint_files distributions ce xs cs ws distributions_new)"
proof -
  have opt: "and_then
       (case ce of
          None \<Rightarrow> return_true
        | Some c \<Rightarrow> saveMatrix dir ''cost_eval.txt'' (VectorXd [c]) ow)
    (and_then
       (if matrix_size xs > 0 then saveMatrix dir ''samples.txt'' (MatrixXd xs) ow
        else return_true)
    (and_then
       (if length cs > 0 then saveMatrix dir ''costs.txt'' (VectorXd cs) ow
        else return_true)
    (and_then
       (if length ws > 0 then saveMatrix dir ''weights.txt'' (VectorXd ws) ow
        else return_true) rest))) =
     and_then (save_all dir ow (optional_files ce xs cs ws)) rest" for rest
    by (cases ce) (simp_all add: optional_files_def and_then_assoc)
  show ?thesis
  proof (cases "length distributions = 1")
    case True
    then show ?thesis
      unfolding save_files_def opt
      by (simp add: checkpoint_files_def single_files_def save_all_append and_then_assoc)
  next
    case False
    with assms show ?thesis
      unfolding save_files_def opt
      by (simp add: checkpoint_files_def save_parallel_save_all save_all_append and_then_assoc
            parallel_files_def)
  qed
qed


section \<open>What a call of \<open>saveToDirectory\<close> leaves behind\<close>

lemma saveMatrix_True:
  "saveMatrix dir f d ow w = (True, w') \<Longrightarrow> w' = w\<lparr>files := files w @ [in_dir dir (f, d)]\<rparr>"
  by (auto simp: saveMatrix_def save_to_def in_dir_def split: if_splits)

lemma saveMatrix_False:
  "saveMatrix dir f d ow w = (False, w') \<Longrightarrow>
   w' = w\<lparr>cerr := cerr w @ [CouldntSave (dir @ ''/'' @ f)]\<rparr>"
  by (auto simp: saveMatrix_def save_to_def split: if_splits)

lemma saveMatrix_exists:
  "path_exists w (dir @ ''/'' @ f) \<Longrightarrow> \<not> ow \<Longrightarrow> fst (saveMatrix dir f d ow w) = False"
  by (simp add: saveMatrix_def save_to_def)

lemma save_all_True:
  "save_all dir ow es w = (True, w') \<Longrightarrow> wrote w w' (map (in_dir dir) es)"
proof (induction es arbitrary: w)
  case Nil
  then show ?case by (simp add: return_true_def wrote_def)
next
  case (Cons e es)
  from Cons.prems obtain w1 where
    s1: "saveMatrix dir (fst e) (snd e) ow w = (True, w1)" and s2: "save_all dir ow es w1 = (True, w')"
    by (auto simp: and_then_def split: prod.splits bool.splits)
  from saveMatrix_True [OF s1] Cons.IH [OF s2] show ?case
    by (simp add: wrote_def)
qed

lemma save_all_False:
  "save_all dir ow es w = (False, w') \<Longrightarrow>
   \<exists>k<length es. w' = w\<lparr>files := files w @ map (in_dir dir) (take k es),
                         cerr := cerr w @ [CouldntSave (dir @ ''/'' @ fst (es ! k))]\<rparr>"
proof (induction es arbitrary: w)
  case Nil
  then show ?case by (simp add: return_true_def)
next
  case (Cons e es)
  show ?case
  proof (cases "saveMatrix dir (fst e) (snd e) ow w")
    case (Pair ok w1)
    show ?thesis
    proof (cases ok)
      case True
      with Pair Cons.prems have s2: "save_all dir ow es w1 = (False, w')"
        by (simp add: and_then_def)
      from Pair True have "saveMatrix dir (fst e) (snd e) ow w = (True, w1)"
        by simp
      from saveMatrix_True [OF this] have w1: "w1 = w\<lparr>files := files w @ [in_dir dir e]\<rparr>"
        by simp
      from Cons.IH [OF s2] obtain k where k: "k < length es"
        and w': "w' = w1\<lparr>files := files w1 @ map (in_dir dir) (take k es),
                         cerr := cerr w1 @ [CouldntSave (dir @ ''/'' @ fst (es ! k))]\<rparr>"
        by blast
      from k w' w1 have "Suc k < length (e # es) \<and>
          w' = w\<lparr>files := files w @ map (in_dir dir) (take (Suc k) (e # es)),
                 cerr := cerr w @ [CouldntSave (dir @ ''/'' @ fst ((e # es) ! Suc k))]\<rparr>"
        by simp
      then show ?thesis by blast
    next
      case False
      with Pair Cons.prems have "saveMatrix dir (fst e) (snd e) ow w = (False, w')"
        by (simp add: and_then_def)
      from saveMatrix_False [OF this] have "0 < length (e # es) \<and>
          w' = w\<lparr>files := files w @ map (in_dir dir) (take 0 (e # es)),
                 cerr := cerr w @ [CouldntSave (dir @ ''/'' @ fst ((e # es) ! 0))]\<rparr>"
        by simp
      then show ?thesis by blast
    qed
  qed
qed

lemma path_exists_files_mono:
  "path_exists w p \<Longrightarrow> path_exists (w\<lparr>files := files w @ es\<rparr>) p"
  by (auto simp: path_exists_def in_paths_def)

lemma save_all_exists:
  "\<not> ow \<Longrightarrow> e \<in> set es \<Longrightarrow> path_exists w (dir @ ''/'' @ fst e) \<Longrightarrow>
   fst (save_all dir ow es w) = False"
proof (induction es arbitrary: w)
  case Nil
  then show ?case by simp
next
  case (Cons x xs)
  show ?case
  proof (cases "saveMatrix dir (fst x) (snd x) ow w")
    case (Pair ok w1)
    show ?thesis
    proof (cases ok)
      case False
      with Pair show ?thesis by (simp add: and_then_def)
    next
      case True
      with Pair Cons.prems saveMatrix_exists [of w dir "fst x" ow "snd x"] have "e \<noteq> x"
        by auto
      with Cons.prems have mem: "e \<in> set xs" by simp
      from Pair True have "saveMatrix dir (fst x) (snd x) ow w = (True, w1)"
        by simp
      from saveMatrix_True [OF this] have "w1 = w\<lparr>files := files w @ [in_dir dir x]\<rparr>"
        by simp
      with Cons.prems have "path_exists w1 (dir @ ''/'' @ fst e)"
        by (simp add: path_exists_files_mono)
      from Cons.IH [OF Cons.prems(1) mem this] Pair True show ?thesis
        by (simp add: and_then_def)
    qed
  qed
qed

lemma make_directory_True:
  "make_directory d w = Inr (True, w') \<Longrightarrow>
   w' = w \<or> w' = w\<lparr>directories := directories w @ [d]\<rparr>"
  by (auto simp: make_directory_def create_directories_def split: if_splits bool.splits)

lemma make_directory_False:
  "make_directory d w = Inr (False, w') \<Longrightarrow>
   w' = w\<lparr>directories := directories w @ [d], cerr := cerr w @ [CouldntMakeDirectory d]\<rparr>"
  by (auto simp: make_directory_def create_directories_def split: if_splits bool.splits)

lemma make_directory_Inl:
  "make_directory d w = Inl e \<Longrightarrow>
   e = FilesystemError \<and> \<not> path_exists w d \<and> in_paths d (mkdir_throws w)"
  by (auto simp: make_directory_def create_directories_def split: if_splits bool.splits)

text \<open>What \<open>make_directory\<close> does, case by case.\<close>

lemma make_directory_present:
  "path_exists w d \<Longrightarrow> make_directory d w = Inr (True, w)"
  by (simp add: make_directory_def)

lemma make_directory_thrown:
  "\<not> path_exists w d \<Longrightarrow> in_paths d (mkdir_throws w) \<Longrightarrow> make_directory d w = Inl FilesystemError"
  by (simp add: make_directory_def create_directories_def)

lemma make_directory_not_made:
  "\<not> path_exists w d \<Longrightarrow> \<not> in_paths d (mkdir_throws w) \<Longrightarrow> in_paths d (mkdir_false w) \<Longrightarrow>
   make_directory d w =
     Inr (False, w\<lparr>directories := directories w @ [d],
                    cerr := cerr w @ [CouldntMakeDirectory d]\<rparr>)"
  by (simp add: make_directory_def create_directories_def)

lemma make_directory_made:
  "\<not> path_exists w d \<Longrightarrow> \<not> in_paths d (mkdir_throws w) \<Longrightarrow> \<not> in_paths d (mkdir_false w) \<Longrightarrow>
   make_directory d w = Inr (True, w\<lparr>directories := directories w @ [d]\<rparr>)"
  by (simp add: make_directory_def create_directories_def)

lemma path_exists_directories_mono:
  "path_exists w p \<Longrightarrow> path_exists (w\<lparr>directories := directories w @ ds\<rparr>) p"
  "path_exists w p \<Longrightarrow> path_exists (w\<lparr>directories := directories w @ ds, cerr := c\<rparr>) p"
  by (auto simp: path_exists_def in_paths_def)

lemma make_directory_exists:
  assumes "make_directory d w = Inr (ok, w')" "path_exists w p"
  shows "path_exists w' p"
proof (cases ok)
  case True
  with assms(1) have "w' = w \<or> w' = w\<lparr>directories := directories w @ [d]\<rparr>"
    by (simp add: make_directory_True)
  with assms(2) show ?thesis
    by (auto simp: path_exists_directories_mono)
next
  case False
  with assms(1) have "w' = w\<lparr>directories := directories w @ [d],
      cerr := cerr w @ [CouldntMakeDirectory d]\<rparr>"
    by (simp add: make_directory_False)
  with assms(2) show ?thesis
    by (simp add: path_exists_directories_mono)
qed

lemma make_directory_files:
  "make_directory d w = Inr (ok, w') \<Longrightarrow> files w' = files w"
  by (auto simp: make_directory_def create_directories_def split: if_splits bool.splits)

lemma make_directory_cerr:
  "make_directory d w = Inr (True, w') \<Longrightarrow> cerr w' = cerr w"
  by (auto simp: make_directory_def create_directories_def split: if_splits bool.splits)

lemma make_directory_answers:
  "make_directory d w = Inr (ok, w') \<Longrightarrow>
   mkdir_throws w' = mkdir_throws w \<and> mkdir_false w' = mkdir_false w \<and>
   write_fails w' = write_fails w \<and> cout w' = cout w"
  by (auto simp: make_directory_def create_directories_def split: if_splits bool.splits)

lemma update_directory_eq:
  "directory @ ''/update'' @ setw_setfill 5 CHR ''0'' (print_int i_update) =
   update_directory directory i_update"
  by (simp add: update_directory_def setw_setfill_def)

lemma saveToDirectory_unfold:
  "saveToDirectory directory i_update ds ce xs cs ws ds_new ow w =
     (case make_directory directory w of
        Inl e \<Rightarrow> Inl e
      | Inr (False, w1) \<Rightarrow> Inr (False, w1)
      | Inr (True, w1) \<Rightarrow>
          (case make_directory (update_directory directory i_update) w1 of
             Inl e \<Rightarrow> Inl e
           | Inr (False, w2) \<Rightarrow> Inr (False, w2)
           | Inr (True, w2) \<Rightarrow>
               if length ds \<noteq> length ds_new then Inl AssertionFailed
               else Inr (save_files (update_directory directory i_update) ds ce xs
                           cs ws ds_new ow w2)))"
  unfolding saveToDirectory_def Let_def update_directory_eq ..

text \<open>The ways a call ends, with what each leaves behind.\<close>

lemma saveToDirectory_cases:
  assumes "saveToDirectory directory i_update ds ce xs cs ws ds_new ow w = r"
  obtains
    (root_thrown) "make_directory directory w = Inl FilesystemError" "r = Inl FilesystemError"
  | (root) w1 where "make_directory directory w = Inr (False, w1)" "r = Inr (False, w1)"
  | (update_thrown) w1 where "make_directory directory w = Inr (True, w1)"
      "make_directory (update_directory directory i_update) w1 = Inl FilesystemError"
      "r = Inl FilesystemError"
  | (update) w1 w2 where "make_directory directory w = Inr (True, w1)"
      "make_directory (update_directory directory i_update) w1 = Inr (False, w2)"
      "r = Inr (False, w2)"
  | (assertion) w1 w2 where "make_directory directory w = Inr (True, w1)"
      "make_directory (update_directory directory i_update) w1 = Inr (True, w2)"
      "length ds \<noteq> length ds_new" "r = Inl AssertionFailed"
  | (files) w1 w2 where "make_directory directory w = Inr (True, w1)"
      "make_directory (update_directory directory i_update) w1 = Inr (True, w2)"
      "length ds = length ds_new"
      "r = Inr (save_all (update_directory directory i_update) ow
                  (checkpoint_files ds ce xs cs ws ds_new) w2)"
proof (cases "make_directory directory w")
  case (Inl e)
  with make_directory_Inl [OF Inl] assms show ?thesis
    by (intro root_thrown) (auto simp: saveToDirectory_unfold)
next
  case (Inr p1)
  obtain ok1 w1 where p1: "p1 = (ok1, w1)" by force
  show ?thesis
  proof (cases ok1)
    case False
    with Inr p1 assms show ?thesis
      by (intro root [of w1]) (auto simp: saveToDirectory_unfold)
  next
    case ok1: True
    show ?thesis
    proof (cases "make_directory (update_directory directory i_update) w1")
      case e2: (Inl e)
      with make_directory_Inl [OF e2] Inr p1 ok1 assms show ?thesis
        by (intro update_thrown [of w1]) (auto simp: saveToDirectory_unfold)
    next
      case r2: (Inr p2)
      obtain ok2 w2 where p2: "p2 = (ok2, w2)" by force
      show ?thesis
      proof (cases ok2)
        case False
        with Inr p1 ok1 r2 p2 assms show ?thesis
          by (intro update [of w1 w2]) (auto simp: saveToDirectory_unfold)
      next
        case ok2: True
        show ?thesis
        proof (cases "length ds = length ds_new")
          case False
          with Inr p1 ok1 r2 p2 ok2 assms show ?thesis
            by (intro assertion [of w1 w2]) (auto simp: saveToDirectory_unfold)
        next
          case True
          with Inr p1 ok1 r2 p2 ok2 assms show ?thesis
            by (intro files [of w1 w2])
               (auto simp: saveToDirectory_unfold save_files_layout)
        qed
      qed
    qed
  qed
qed

section \<open>File names\<close>

lemma last_digits_zero: "last_digits k 0 = replicate k CHR ''0''"
  by (induction k) (simp_all add: digit_char_def replicate_append_same)

lemma setw_last_digits:
  "0 < k \<Longrightarrow> n < 10 ^ k \<Longrightarrow> setw_setfill k CHR ''0'' (decimal n) = last_digits k n"
proof (induction k arbitrary: n)
  case 0
  then show ?case by simp
next
  case (Suc k)
  show ?case
  proof (cases "n < 10")
    case True
    then have "decimal n = [digit_char n]"
      by (subst decimal.simps) simp
    with True show ?thesis
      by (simp add: setw_setfill_def last_digits_zero)
  next
    case False
    then have d: "decimal n = decimal (n div 10) @ [digit_char (n mod 10)]"
      by (subst decimal.simps) simp
    from Suc.prems have lt: "n div 10 < 10 ^ k"
      by (simp add: less_mult_imp_div_less mult.commute)
    from False lt have "0 < k"
      by (cases k) auto
    from Suc.IH [OF this lt] show ?thesis
      by (simp add: d setw_setfill_def)
  qed
qed

lemma update_directory_digits:
  assumes "0 \<le> i_update" "i_update < 100000"
  shows "update_directory directory i_update =
         directory @ ''/update'' @ last_digits 5 (nat i_update)"
proof -
  from assms have "nat i_update < 10 ^ 5" by simp
  then have "setw_setfill 5 CHR ''0'' (decimal (nat i_update)) = last_digits 5 (nat i_update)"
    by (intro setw_last_digits) simp_all
  with assms show ?thesis
    by (simp add: update_directory_eq [symmetric] print_int_def)
qed

lemma indexed_files_digits:
  assumes "dd < 1000"
  shows "indexed_files label ds dd =
     [(label @ last_digits 3 dd @ ''_mean.txt'', VectorXd (mean (ds ! dd))),
      (label @ last_digits 3 dd @ ''_covar.txt'', MatrixXd (covar (ds ! dd)))]"
proof -
  from assms have "dd < 10 ^ 3" by simp
  then have "setw_setfill 3 CHR ''0'' (decimal dd) = last_digits 3 dd"
    by (intro setw_last_digits) simp_all
  then show ?thesis
    by (simp add: indexed_files_def)
qed

lemma parallel_files_name:
  "e \<in> set (parallel_files (c # label) ds) \<Longrightarrow> hd (fst e) = c"
  by (auto simp: parallel_files_def indexed_files_def)

lemma optional_name_checkpoint_files:
  assumes "name \<in> {''cost_eval.txt'', ''samples.txt'', ''costs.txt'', ''weights.txt''}"
  shows "name \<in> fst ` set (checkpoint_files ds ce xs cs ws ds_new) \<longleftrightarrow>
         name \<in> fst ` set (optional_files ce xs cs ws)"
proof -
  have hd_name: "hd name \<noteq> CHR ''/''"
    using assms by auto
  have p: "name \<notin> fst ` set (parallel_files (CHR ''/'' # label) dl)" for label dl
    using parallel_files_name hd_name by fastforce
  have s: "name \<notin> fst ` set (single_files ''distribution'' d)"
          "name \<notin> fst ` set (single_files ''distribution_new'' d)" for d
    using assms by (auto simp: single_files_def)
  have n: "name \<noteq> ''n_parallel.txt''"
    using assms by auto
  show ?thesis
    using p [of "''distribution_''"] p [of "''distribution_new_''"] s n
    by (auto simp: checkpoint_files_def image_Un)
qed

lemma in_dir_name:
  "dir @ ''/'' @ name \<in> fst ` set (map (in_dir dir) es) \<longleftrightarrow> name \<in> fst ` set es"
  by (auto simp: in_dir_def image_iff)

lemma checkpoint_files_nonempty:
  "checkpoint_files ds ce xs cs ws ds_new \<noteq> []"
  by (simp add: checkpoint_files_def single_files_def)

text \<open>
  Every call that returns has written a prefix of the layout, the whole of it exactly when
  it returns true, and has reported exactly the step that failed.
\<close>

lemma saveToDirectory_outcome:
  assumes "saveToDirectory directory i_update ds ce xs cs ws ds_new ow w =
           Inr (ok, w')"
  shows "\<exists>k\<le>length (checkpoint_files ds ce xs cs ws ds_new).
           files w' = files w @ map (in_dir (update_directory directory i_update))
                        (take k (checkpoint_files ds ce xs cs ws ds_new)) \<and>
           (ok \<longleftrightarrow> k = length (checkpoint_files ds ce xs cs ws ds_new)) \<and>
           (if ok then cerr w' = cerr w
            else cerr w' = cerr w @ [CouldntMakeDirectory directory] \<and> k = 0 \<or>
                 cerr w' = cerr w @ [CouldntMakeDirectory (update_directory directory i_update)] \<and>
                   k = 0 \<or>
                 cerr w' = cerr w @ [CouldntSave (fst (in_dir (update_directory directory i_update)
                   (checkpoint_files ds ce xs cs ws ds_new ! k)))])"
    (is "\<exists>k\<le>length ?L. ?P k")
  using assms
proof (cases rule: saveToDirectory_cases)
  case root_thrown
  then show ?thesis by simp
next
  case (root w1)
  from make_directory_False [OF root(1)] root(2) have "?P 0"
    using checkpoint_files_nonempty [of ds ce xs cs ws ds_new] by auto
  then show ?thesis by blast
next
  case (update_thrown w1)
  then show ?thesis by simp
next
  case (update w1 w2)
  from make_directory_files [OF update(1)] make_directory_cerr [OF update(1)]
    make_directory_False [OF update(2)] update(3)
  have "?P 0"
    using checkpoint_files_nonempty [of ds ce xs cs ws ds_new] by auto
  then show ?thesis by blast
next
  case (assertion w1 w2)
  then show ?thesis by simp
next
  case (files w1 w2)
  have f2: "files w2 = files w" and c2: "cerr w2 = cerr w"
    using make_directory_files [OF files(1)] make_directory_files [OF files(2)]
      make_directory_cerr [OF files(1)] make_directory_cerr [OF files(2)] by simp_all
  from files(4) have run: "save_all (update_directory directory i_update) ow ?L w2 = (ok, w')"
    by simp
  show ?thesis
  proof (cases ok)
    case True
    with run save_all_True [of "update_directory directory i_update" ow ?L w2 w']
    have "?P (length ?L)"
      using f2 c2 by (simp add: wrote_def)
    then show ?thesis by blast
  next
    case False
    with run have "save_all (update_directory directory i_update) ow ?L w2 = (False, w')"
      by simp
    from save_all_False [OF this]
    obtain k where k: "k < length ?L"
      and w': "w' = w2\<lparr>files := files w2 @ map (in_dir (update_directory directory i_update)) (take k ?L),
                     cerr := cerr w2 @
                       [CouldntSave (update_directory directory i_update @ ''/'' @ fst (?L ! k))]\<rparr>"
      by blast
    from k w' False f2 c2 have "?P k"
      by (simp add: in_dir_def)
    with k show ?thesis by (intro exI [of _ k]) simp
  qed
qed

lemma saveToDirectory_exists:
  assumes "saveToDirectory directory i_update ds ce xs cs ws ds_new ow w =
           Inr (ok, w')"
    and "\<not> ow"
    and "e \<in> set (checkpoint_files ds ce xs cs ws ds_new)"
    and "path_exists w (update_directory directory i_update @ ''/'' @ fst e)"
  shows "\<not> ok"
  using assms(1)
proof (cases rule: saveToDirectory_cases)
  case root_thrown
  then show ?thesis by simp
next
  case (root w1)
  then show ?thesis by simp
next
  case (update_thrown w1)
  then show ?thesis by simp
next
  case (update w1 w2)
  then show ?thesis by simp
next
  case (assertion w1 w2)
  then show ?thesis by simp
next
  case (files w1 w2)
  from assms(4) have "path_exists w2 (update_directory directory i_update @ ''/'' @ fst e)"
    using make_directory_exists [OF files(1)] make_directory_exists [OF files(2)] by blast
  from save_all_exists [OF assms(2) assms(3) this] files(4) show ?thesis
    by (metis Inr_inject fst_conv)
qed

section \<open>Evaluating the writer on the examples\<close>

lemma replicate_numeral: "replicate (numeral k) x = x # replicate (pred_numeral k) x"
  by (simp add: numeral_eq_Suc)

lemma last_digits_numeral:
  "last_digits (numeral k) n = last_digits (pred_numeral k) (n div 10) @ [digit_char (n mod 10)]"
proof -
  have "last_digits (Suc (pred_numeral k)) n =
        last_digits (pred_numeral k) (n div 10) @ [digit_char (n mod 10)]"
    by (rule last_digits.simps)
  then show ?thesis
    by (simp only: numeral_eq_Suc [of k, symmetric])
qed

lemma decimal_digit: "n < 10 \<Longrightarrow> decimal n = [digit_char n]"
  by (subst decimal.simps) simp

lemma digit_chars:
  "digit_char 0 = CHR ''0''" "digit_char (Suc 0) = CHR ''1''" "digit_char 7 = CHR ''7''"
  by (simp_all add: digit_char_def)

lemmas writer_eval =
  saveToDirectory_unfold make_directory_def create_directories_def path_exists_def in_paths_def
  save_files_layout checkpoint_files_def single_files_def optional_files_def parallel_files_def
  indexed_files_def and_then_def saveMatrix_def save_to_def return_true_def matrix_size_def matrix_rows_def
  matrix_cols_def update_directory_def print_int_def setw_setfill_def decimal_digit digit_chars
  replicate_numeral standard_normal_def shifted_normal_def empty_disk_def full_disk_def
  used_disk_def

lemma run_single:
  "saveToDirectory ''out'' 7 [standard_normal] (Some 0) [[1, 2]] [5] [1] [shifted_normal] False
     empty_disk =
   Inr (True, empty_disk\<lparr>directories := [''out'', ''out/update00007''],
     files := [(''out/update00007/distribution_mean.txt'', VectorXd [0, 0]),
               (''out/update00007/distribution_covar.txt'', MatrixXd [[1, 0], [0, 1]]),
               (''out/update00007/cost_eval.txt'', VectorXd [0]),
               (''out/update00007/samples.txt'', MatrixXd [[1, 2]]),
               (''out/update00007/costs.txt'', VectorXd [5]),
               (''out/update00007/weights.txt'', VectorXd [1]),
               (''out/update00007/distribution_new_mean.txt'', VectorXd [1, 2]),
               (''out/update00007/distribution_new_covar.txt'', MatrixXd [[1, 0], [0, 1]])]\<rparr>)"
  by (simp add: writer_eval)

lemma run_parallel:
  "saveToDirectory ''out'' 7 [standard_normal, shifted_normal] None [] [] []
     [shifted_normal, standard_normal] False empty_disk =
   Inr (True, empty_disk\<lparr>directories := [''out'', ''out/update00007''],
     files := [(''out/update00007/n_parallel.txt'', VectorXi [2]),
               (''out/update00007//distribution_000_mean.txt'', VectorXd [0, 0]),
               (''out/update00007//distribution_000_covar.txt'', MatrixXd [[1, 0], [0, 1]]),
               (''out/update00007//distribution_001_mean.txt'', VectorXd [1, 2]),
               (''out/update00007//distribution_001_covar.txt'', MatrixXd [[1, 0], [0, 1]]),
               (''out/update00007//distribution_new_000_mean.txt'', VectorXd [1, 2]),
               (''out/update00007//distribution_new_000_covar.txt'', MatrixXd [[1, 0], [0, 1]]),
               (''out/update00007//distribution_new_001_mean.txt'', VectorXd [0, 0]),
               (''out/update00007//distribution_new_001_covar.txt'', MatrixXd [[1, 0], [0, 1]])]\<rparr>)"
  by (simp add: writer_eval)

lemma run_bare:
  "saveToDirectory ''out'' 7 [standard_normal] None [] [] [] [shifted_normal] False empty_disk =
   Inr (True, empty_disk\<lparr>directories := [''out'', ''out/update00007''],
     files := [(''out/update00007/distribution_mean.txt'', VectorXd [0, 0]),
               (''out/update00007/distribution_covar.txt'', MatrixXd [[1, 0], [0, 1]]),
               (''out/update00007/distribution_new_mean.txt'', VectorXd [1, 2]),
               (''out/update00007/distribution_new_covar.txt'', MatrixXd [[1, 0], [0, 1]])]\<rparr>)"
  by (simp add: writer_eval)

lemma run_full_disk:
  "saveToDirectory ''out'' 7 [standard_normal] (Some 0) [[1, 2]] [5] [1] [shifted_normal] False
     full_disk =
   Inr (False, full_disk\<lparr>directories := [''out'', ''out/update00007''],
     files := [(''out/update00007/distribution_mean.txt'', VectorXd [0, 0]),
               (''out/update00007/distribution_covar.txt'', MatrixXd [[1, 0], [0, 1]])],
     cerr := [CouldntSave ''out/update00007/cost_eval.txt'']\<rparr>)"
  by (simp add: writer_eval)

lemma run_used_disk:
  "saveToDirectory ''out'' 7 [standard_normal] (Some 0) [[1, 2]] [5] [1] [shifted_normal] False
     used_disk =
   Inr (False, used_disk\<lparr>cerr := [CouldntSave ''out/update00007/distribution_mean.txt'']\<rparr>)"
  by (simp add: writer_eval)

lemma optional_files_names:
  "fst ` set (optional_files ce xs cs ws) =
     (if ce = None then {} else {''cost_eval.txt''}) \<union>
     (if matrix_size xs = 0 then {} else {''samples.txt''}) \<union>
     (if length cs = 0 then {} else {''costs.txt''}) \<union>
     (if length ws = 0 then {} else {''weights.txt''})"
  by (cases ce) (simp_all add: optional_files_def)

lemma update_directory_7: "update_directory ''out'' 7 = ''out/update00007''"
  by (simp add: update_directory_def print_int_def decimal_digit digit_chars replicate_numeral)

section \<open>How an index prints\<close>

lemma digit_cases: "d < 10 \<Longrightarrow> d \<in> {0, 1, 2, 3, 4, 5, 6, 7, 8, 9::nat}"
  by auto

lemma digit_value_digit_char: "d < 10 \<Longrightarrow> digit_value (digit_char d) = d"
  using digit_cases [of d] by (auto simp: digit_value_def digit_char_def)

lemma digit_char_digit: "d < 10 \<Longrightarrow> digit_char d \<in> set ''0123456789''"
  using digit_cases [of d] by (auto simp: digit_char_def)

lemma digits_value_snoc: "digits_value (s @ [c]) = 10 * digits_value s + digit_value c"
  by (simp add: digits_value_def)

lemma digits_value_decimal: "digits_value (decimal n) = n"
proof (induction n rule: decimal.induct)
  case (1 n)
  show ?case
  proof (cases "n < 10")
    case True
    then show ?thesis
      by (subst decimal.simps) (simp add: digits_value_def digit_value_digit_char)
  next
    case False
    with "1.IH" show ?thesis
      by (subst decimal.simps) (simp add: digits_value_snoc digit_value_digit_char)
  qed
qed

lemma all_digits_decimal: "all_digits (decimal n)"
proof (induction n rule: decimal.induct)
  case (1 n)
  show ?case
  proof (cases "n < 10")
    case True
    then show ?thesis
      by (subst decimal.simps) (simp add: all_digits_def digit_char_digit del: set_simps)
  next
    case False
    with "1.IH" show ?thesis
      by (subst decimal.simps) (simp add: all_digits_def digit_char_digit del: set_simps)
  qed
qed

lemma length_decimal: "10 ^ k \<le> n \<Longrightarrow> k < length (decimal n)"
proof (induction k arbitrary: n)
  case 0
  then show ?case by (subst decimal.simps) simp
next
  case (Suc k)
  have "(10::nat) * 1 \<le> 10 * 10 ^ k"
    by (rule mult_le_mono2) simp
  then have "(10::nat) \<le> 10 ^ Suc k" by simp
  from this Suc.prems have "10 \<le> n" by (rule order_trans)
  then have "\<not> n < 10" by simp
  moreover from Suc.prems have "10 ^ k \<le> n div 10"
    by (simp add: less_eq_div_iff_mult_less_eq mult.commute)
  ultimately show ?case
    using Suc.IH [of "n div 10"] by (subst decimal.simps) simp
qed

lemma length_last_digits: "length (last_digits k n) = k"
  by (induction k arbitrary: n) simp_all

lemma all_digits_last_digits: "all_digits (last_digits k n)"
  by (induction k arbitrary: n) (simp_all add: all_digits_def digit_char_digit del: set_simps)

lemma digits_value_last_digits: "digits_value (last_digits k n) = n mod 10 ^ k"
proof (induction k arbitrary: n)
  case 0
  then show ?case by (simp add: digits_value_def)
next
  case (Suc k)
  have "n mod 10 ^ Suc k = 10 * (n div 10 mod 10 ^ k) + n mod 10"
    by (simp add: mod_mult2_eq)
  with Suc show ?case
    by (simp add: digits_value_snoc digit_value_digit_char)
qed

lemma update_directory_large:
  assumes "100000 \<le> i_update"
  shows "update_directory directory i_update = directory @ ''/update'' @ decimal (nat i_update)"
    and "5 < length (decimal (nat i_update))"
proof -
  from assms have "10 ^ 5 \<le> nat i_update" by simp
  then show long: "5 < length (decimal (nat i_update))"
    by (rule length_decimal)
  from assms long show "update_directory directory i_update =
      directory @ ''/update'' @ decimal (nat i_update)"
    by (simp add: update_directory_def print_int_def)
qed

lemma update_directory_negative:
  assumes "i_update < 0"
  shows "update_directory directory i_update =
     directory @ ''/update'' @ replicate (4 - length (decimal (nat (- i_update)))) CHR ''0'' @
       CHR ''-'' # decimal (nat (- i_update))"
  using assms by (simp add: update_directory_def print_int_def)

lemma indexed_files_large:
  assumes "1000 \<le> dd"
  shows "indexed_files label dl dd =
      [(label @ decimal dd @ ''_mean.txt'', VectorXd (mean (dl ! dd))),
       (label @ decimal dd @ ''_covar.txt'', MatrixXd (covar (dl ! dd)))]"
    and "3 < length (decimal dd)"
proof -
  from assms have "10 ^ 3 \<le> dd" by simp
  then show long: "3 < length (decimal dd)"
    by (rule length_decimal)
  then show "indexed_files label dl dd =
      [(label @ decimal dd @ ''_mean.txt'', VectorXd (mean (dl ! dd))),
       (label @ decimal dd @ ''_covar.txt'', MatrixXd (covar (dl ! dd)))]"
    by (simp add: indexed_files_def setw_setfill_def)
qed

lemma decimal_100000: "decimal 100000 = ''100000''"
  by (simp add: decimal.simps digit_char_def)

lemma decimal_1000: "decimal 1000 = ''1000''"
  by (simp add: decimal.simps digit_char_def)

lemma update_directory_100000: "update_directory ''out'' 100000 = ''out/update100000''"
  by (simp add: update_directory_def print_int_def decimal_100000)

lemma update_directory_minus_1: "update_directory ''out'' (- 1) = ''out/update000-1''"
  by (simp add: update_directory_def print_int_def decimal_digit digit_chars replicate_numeral)

lemma run_large_index:
  "saveToDirectory ''out'' 100000 [standard_normal] None [] [] [] [shifted_normal] False
     empty_disk =
   Inr (True, empty_disk\<lparr>directories := [''out'', ''out/update100000''],
     files := [(''out/update100000/distribution_mean.txt'', VectorXd [0, 0]),
               (''out/update100000/distribution_covar.txt'', MatrixXd [[1, 0], [0, 1]]),
               (''out/update100000/distribution_new_mean.txt'', VectorXd [1, 2]),
               (''out/update100000/distribution_new_covar.txt'', MatrixXd [[1, 0], [0, 1]])]\<rparr>)"
  by (simp add: saveToDirectory_unfold update_directory_100000 make_directory_def
        create_directories_def path_exists_def in_paths_def save_files_layout checkpoint_files_def
        single_files_def optional_files_def and_then_def saveMatrix_def save_to_def return_true_def
        matrix_size_def matrix_rows_def matrix_cols_def standard_normal_def shifted_normal_def
        empty_disk_def)

lemma run_negative_index:
  "saveToDirectory ''out'' (- 1) [standard_normal] None [] [] [] [shifted_normal] False
     empty_disk =
   Inr (True, empty_disk\<lparr>directories := [''out'', ''out/update000-1''],
     files := [(''out/update000-1/distribution_mean.txt'', VectorXd [0, 0]),
               (''out/update000-1/distribution_covar.txt'', MatrixXd [[1, 0], [0, 1]]),
               (''out/update000-1/distribution_new_mean.txt'', VectorXd [1, 2]),
               (''out/update000-1/distribution_new_covar.txt'', MatrixXd [[1, 0], [0, 1]])]\<rparr>)"
  by (simp add: saveToDirectory_unfold update_directory_minus_1 make_directory_def
        create_directories_def path_exists_def in_paths_def save_files_layout checkpoint_files_def
        single_files_def optional_files_def and_then_def saveMatrix_def save_to_def return_true_def
        matrix_size_def matrix_rows_def matrix_cols_def standard_normal_def shifted_normal_def
        empty_disk_def)

lemma run_locked_disk:
  "saveToDirectory ''out'' 7 [standard_normal] (Some 0) [[1, 2]] [5] [1] [shifted_normal] False
     locked_disk = Inl FilesystemError"
  by (simp add: writer_eval locked_disk_def)

lemma run_raced_disk:
  "saveToDirectory ''out'' 7 [standard_normal] (Some 0) [[1, 2]] [5] [1] [shifted_normal] False
     raced_disk =
   Inr (False, raced_disk\<lparr>directories := [''out''], cerr := [CouldntMakeDirectory ''out'']\<rparr>)"
  by (simp add: writer_eval raced_disk_def)

lemma run_used_parallel_disk:
  "saveToDirectory ''out'' 7 [standard_normal, shifted_normal] None [] [] []
     [shifted_normal, standard_normal] False used_parallel_disk =
   Inr (False, used_parallel_disk\<lparr>
     files := [(''out/update00007/distribution_000_mean.txt'', VectorXd [9]),
               (''out/update00007/n_parallel.txt'', VectorXi [2])],
     cerr := [CouldntSave ''out/update00007//distribution_000_mean.txt'']\<rparr>)"
  by (simp add: writer_eval used_parallel_disk_def)


lemma make_directory_creates:
  "make_directory d w = Inr (ok, w') \<Longrightarrow> path_exists w' d"
  by (auto simp: make_directory_def create_directories_def path_exists_def in_paths_def
      split: if_splits bool.splits)

lemma saveToDirectory_made:
  assumes "saveToDirectory directory i_update ds ce xs cs ws ds_new ow w = Inr (True, w')"
  shows "path_exists w' (update_directory directory i_update)"
  using assms
proof (cases rule: saveToDirectory_cases)
  case (files w1 w2)
  from make_directory_creates [OF files(2)]
  have made: "path_exists w2 (update_directory directory i_update)" .
  from files(4) have "save_all (update_directory directory i_update) ow
      (checkpoint_files ds ce xs cs ws ds_new) w2 = (True, w')"
    by simp
  from save_all_True [OF this] made show ?thesis
    by (simp add: wrote_def path_exists_files_mono)
qed simp_all

lemma run_last_of_1001:
  "save_parallel ''out/update00000'' ''/distribution_'' (replicate 1001 standard_normal) 1001 1000
     False empty_disk =
   (True, empty_disk\<lparr>files :=
      [(''out/update00000//distribution_1000_mean.txt'', VectorXd [0, 0]),
       (''out/update00000//distribution_1000_covar.txt'', MatrixXd [[1, 0], [0, 1]])]\<rparr>)"
proof -
  have stop: "save_parallel dir label ds 1001 1001 ow = return_true" for dir label ds ow
    by (subst save_parallel.simps) simp
  show ?thesis
    by (subst save_parallel.simps)
       (simp add: stop setw_setfill_def decimal_1000 and_then_def saveMatrix_def save_to_def
          return_true_def path_exists_def in_paths_def standard_normal_def empty_disk_def)
qed


section \<open>The passes of the loop\<close>

subsection \<open>What each step changes\<close>

lemma evaluate_samples_stop:
  "\<not> int i < n_samples_per_update A \<Longrightarrow> evaluate_samples E A i st = Inr st"
  by (subst evaluate_samples.simps) simp

lemma evaluate_samples_assert:
  "int i < n_samples_per_update A \<Longrightarrow> \<not> (i < matrix_rows (samples st) \<and> i < length (costs st)) \<Longrightarrow>
   evaluate_samples E A i st = Inl AssertionFailed"
  by (subst evaluate_samples.simps) auto

lemma evaluate_samples_step:
  "int i < n_samples_per_update A \<Longrightarrow> i < matrix_rows (samples st) \<Longrightarrow> i < length (costs st) \<Longrightarrow>
   evaluate E (samples st ! i) (hidden st) = (c, h') \<Longrightarrow>
   evaluate_samples E A i st =
     evaluate_samples E A (Suc i)
       (st\<lparr>costs := (costs st)[i := c], hidden := h',
          calls := calls st @ [EvaluateSample i (samples st ! i) c]\<rparr>)"
  by (subst evaluate_samples.simps) simp

text \<open>
  The evaluation of the samples writes \<open>costs\<close> and nothing else of the loop's
  variables, and all its calls are evaluations of samples.
\<close>

lemma evaluate_samples_Inr:
  "evaluate_samples E A i st = Inr st' \<Longrightarrow>
     distribution st' = distribution st \<and> distribution_new st' = distribution_new st \<and>
     cost_eval st' = cost_eval st \<and> samples st' = samples st \<and> weights st' = weights st \<and>
     learning_curve st' = learning_curve st \<and> world st' = world st \<and>
     length (costs st') = length (costs st) \<and>
     (\<exists>evs. calls st' = calls st @ evs \<and> (\<forall>e\<in>set evs. \<not> is_EvaluateMean e))"
proof (induction E A i st rule: evaluate_samples.induct)
  case (1 E A i st)
  show ?case
  proof (cases "int i < n_samples_per_update A")
    case False
    with "1.prems" have "st' = st"
      by (simp add: evaluate_samples_stop)
    then show ?thesis by simp
  next
    case True
    have ok: "i < matrix_rows (samples st) \<and> i < length (costs st)"
    proof (rule ccontr)
      assume "\<not> ?thesis"
      from evaluate_samples_assert [OF True this] "1.prems" show False by simp
    qed
    obtain c h' where ev: "evaluate E (samples st ! i) (hidden st) = (c, h')"
      by force
    let ?st1 = "st\<lparr>costs := (costs st)[i := c], hidden := h',
                    calls := calls st @ [EvaluateSample i (samples st ! i) c]\<rparr>"
    from evaluate_samples_step [OF True _ _ ev] ok "1.prems"
    have run: "evaluate_samples E A (Suc i) ?st1 = Inr st'"
      by simp
    from "1.IH" [OF True ok ev [symmetric] run] obtain evs where
      frame: "distribution st' = distribution st" "distribution_new st' = distribution_new st"
        "cost_eval st' = cost_eval st" "samples st' = samples st" "weights st' = weights st"
        "learning_curve st' = learning_curve st" "world st' = world st"
        "length (costs st') = length (costs st)"
      and evs: "calls st' = (calls st @ [EvaluateSample i (samples st ! i) c]) @ evs"
        "\<forall>e\<in>set evs. \<not> is_EvaluateMean e"
      by auto
    from evs have "calls st' = calls st @ (EvaluateSample i (samples st ! i) c # evs) \<and>
        (\<forall>e\<in>set (EvaluateSample i (samples st ! i) c # evs). \<not> is_EvaluateMean e)"
      by simp
    with frame show ?thesis by blast
  qed
qed

text \<open>The outside world plays no part in the evaluation of the samples.\<close>

lemma evaluate_samples_world:
  "evaluate_samples E A i (st\<lparr>world := w\<rparr>) =
     (case evaluate_samples E A i st of Inl e \<Rightarrow> Inl e | Inr s \<Rightarrow> Inr (s\<lparr>world := w\<rparr>))"
proof (induction E A i st rule: evaluate_samples.induct)
  case (1 E A i st)
  show ?case
  proof (cases "int i < n_samples_per_update A")
    case False
    then show ?thesis by (simp add: evaluate_samples_stop)
  next
    case True
    show ?thesis
    proof (cases "i < matrix_rows (samples st) \<and> i < length (costs st)")
      case False
      with True show ?thesis
        by (simp add: evaluate_samples_assert)
    next
      case ok: True
      obtain c h' where ev: "evaluate E (samples st ! i) (hidden st) = (c, h')"
        by force
      let ?st1 = "st\<lparr>costs := (costs st)[i := c], hidden := h',
                      calls := calls st @ [EvaluateSample i (samples st ! i) c]\<rparr>"
      have a: "evaluate_samples E A i (st\<lparr>world := w\<rparr>) =
               evaluate_samples E A (Suc i) (?st1\<lparr>world := w\<rparr>)"
      proof -
        have "(st\<lparr>world := w\<rparr>)\<lparr>costs := (costs st)[i := c], hidden := h',
                calls := calls st @ [EvaluateSample i (samples st ! i) c]\<rparr> = ?st1\<lparr>world := w\<rparr>"
          by (cases st) simp
        with evaluate_samples_step [of i A "st\<lparr>world := w\<rparr>" E c h'] True ok ev show ?thesis
          by simp
      qed
      have b: "evaluate_samples E A i st = evaluate_samples E A (Suc i) ?st1"
        using evaluate_samples_step [of i A st E c h'] True ok ev by simp
      have c: "evaluate_samples E A (Suc i) (?st1\<lparr>world := w\<rparr>) =
               (case evaluate_samples E A (Suc i) ?st1 of
                  Inl e \<Rightarrow> Inl e | Inr s \<Rightarrow> Inr (s\<lparr>world := w\<rparr>))"
        by (rule "1.IH" [OF True ok ev [symmetric]])
      show ?thesis
        by (simp only: a b c)
    qed
  qed
qed

lemma evaluate_mean_world: "evaluate_mean E (st\<lparr>world := w\<rparr>) = (evaluate_mean E st)\<lparr>world := w\<rparr>"
  by (simp add: evaluate_mean_def split: prod.splits)

lemma draw_samples_world: "draw_samples E A (st\<lparr>world := w\<rparr>) = (draw_samples E A st)\<lparr>world := w\<rparr>"
  by (simp add: draw_samples_def split: prod.splits)

lemma update_world: "update E (st\<lparr>world := w\<rparr>) = (update E st)\<lparr>world := w\<rparr>"
  by (simp add: update_def split: prod.splits)

lemma save_all_answers:
  "save_all dir ow es w = (ok, w') \<Longrightarrow> mkdir_throws w' = mkdir_throws w"
  by (cases ok) (auto dest!: save_all_True save_all_False simp: wrote_def)

text \<open>A call that returns leaves the file system as ready to raise as it found it.\<close>

lemma saveToDirectory_answers:
  assumes "saveToDirectory dir i ds ce xs cs ws dn ow w = Inr (ok, w')"
  shows "mkdir_throws w' = mkdir_throws w"
  using assms
proof (cases rule: saveToDirectory_cases)
  case (root w1)
  with make_directory_answers [OF root(1)] show ?thesis by simp
next
  case (update w1 w2)
  with make_directory_answers [OF update(1)] make_directory_answers [OF update(2)]
  show ?thesis by simp
next
  case (files w1 w2)
  from files(4) have "save_all (update_directory dir i) ow (checkpoint_files ds ce xs cs ws dn) w2 =
      (ok, w')"
    by simp
  from save_all_answers [OF this] make_directory_answers [OF files(1)]
    make_directory_answers [OF files(2)]
  show ?thesis by simp
qed simp_all

text \<open>
  The call of \<open>saveToDirectory\<close> on one distribution returns, true or false, unless a
  directory cannot be made: then it ends by the exception.
\<close>

lemma saveToDirectory1_result:
  "saveToDirectory1 dir i d ce xs cs ws dn ow w = Inl FilesystemError \<or>
   (\<exists>saved w'. saveToDirectory1 dir i d ce xs cs ws dn ow w = Inr (saved, w'))"
proof -
  obtain r where r: "saveToDirectory dir i [d] ce xs cs ws [dn] ow w = r"
    by simp
  then have "r = Inl FilesystemError \<or> (\<exists>saved w'. r = Inr (saved, w'))"
    by (cases rule: saveToDirectory_cases) (auto intro: prod.exhaust)
  with r show ?thesis
    by (simp add: saveToDirectory1_def)
qed

lemma in_paths_empty: "\<not> in_paths p {}"
  by (simp add: in_paths_def)

lemma saveToDirectory1_returns:
  assumes "mkdir_throws w = {}"
  shows "\<exists>saved w'. saveToDirectory1 dir i d ce xs cs ws dn ow w = Inr (saved, w') \<and>
           mkdir_throws w' = {}"
proof -
  obtain r where r: "saveToDirectory dir i [d] ce xs cs ws [dn] ow w = r"
    by simp
  then have "r \<noteq> Inl FilesystemError"
  proof (cases rule: saveToDirectory_cases)
    case root_thrown
    from make_directory_Inl [OF root_thrown(1)] assms show ?thesis
      by (simp add: in_paths_empty)
  next
    case (update_thrown w1)
    from make_directory_Inl [OF update_thrown(2)] make_directory_answers [OF update_thrown(1)] assms
    show ?thesis
      by (simp add: in_paths_empty)
  qed simp_all
  with r saveToDirectory1_result [of dir i d ce xs cs ws dn ow w] obtain saved w' where
    "saveToDirectory dir i [d] ce xs cs ws [dn] ow w = Inr (saved, w')"
    by (auto simp: saveToDirectory1_def)
  with saveToDirectory_answers [OF this] assms show ?thesis
    by (simp add: saveToDirectory1_def)
qed

lemma set_coeff_Inr:
  "set_coeff m i j v = Inr m' \<longleftrightarrow> i < length m \<and> j < length (m ! i) \<and> m' = m[i := (m ! i)[j := v]]"
  by (auto simp: set_coeff_def matrix_rows_def)

lemma three_updates:
  "length r = 3 \<Longrightarrow> r[0 := a, Suc 0 := b, 2 := c] = [a, b, c]"
  by (cases r; cases "tl r"; cases "tl (tl r)") (auto simp: numeral_2_eq_2)

text \<open>
  The row that the pass \<open>i\<close> writes: the samples so far, the cost of the mean, the
  exploration magnitude.
\<close>

lemma update_learning_curve_Inr:
  assumes "update_learning_curve E A i st = Inr st'"
  shows "i < length (learning_curve st) \<and> 2 < length (learning_curve st ! i) \<and>
         st' = st\<lparr>learning_curve := (learning_curve st)
                  [i := (learning_curve st ! i)
                     [0 := of_int (int_times (int i) (n_samples_per_update A)),
                      Suc 0 := cost_eval st,
                      2 := sqrt (maxEigenValue E (distribution st))]]\<rparr>"
  using assms
  by (auto simp: update_learning_curve_def set_coeff_Inr split: sum.splits)

lemma set_coeff_Inl: "set_coeff m i j v = Inl e \<Longrightarrow> e = AssertionFailed"
  by (auto simp: set_coeff_def split: if_splits)

lemma update_learning_curve_Inl:
  "update_learning_curve E A i st = Inl e \<Longrightarrow> e = AssertionFailed"
  by (auto simp: update_learning_curve_def split: sum.splits dest: set_coeff_Inl)

lemma update_learning_curve_ok:
  assumes "i < length (learning_curve st)" "length (learning_curve st ! i) = 3"
  shows "\<exists>st'. update_learning_curve E A i st = Inr st'"
  using assms
  by (simp add: update_learning_curve_def set_coeff_def matrix_rows_def)

text \<open>The bookkeeping writes the learning curve and the outside world, nothing else.\<close>

lemma bookkeeping_Inr:
  assumes "bookkeeping E A i st = Inr st'"
  shows "distribution st' = distribution st \<and> distribution_new st' = distribution_new st \<and>
         cost_eval st' = cost_eval st \<and> samples st' = samples st \<and> costs st' = costs st \<and>
         weights st' = weights st \<and> hidden st' = hidden st \<and> calls st' = calls st"
  using assms
  by (auto simp: bookkeeping_def split: if_splits sum.splits prod.splits
           dest!: update_learning_curve_Inr)

lemma bookkeeping_learning_curve:
  assumes "bookkeeping E A i st = Inr st'" "save_directory A \<noteq> []"
  shows "i < length (learning_curve st) \<and> 2 < length (learning_curve st ! i) \<and>
         learning_curve st' = (learning_curve st)
           [i := (learning_curve st ! i)
              [0 := of_int (int_times (int i) (n_samples_per_update A)), Suc 0 := cost_eval st,
               2 := sqrt (maxEigenValue E (distribution st))]]"
  using assms
  by (auto simp: bookkeeping_def split: if_splits sum.splits prod.splits
           dest!: update_learning_curve_Inr)

lemma bookkeeping_console:
  assumes "save_directory A = []"
  shows "bookkeeping E A i st =
         Inr (st\<lparr>world := (world st)\<lparr>cout := cout (world st) @
                [UpdateLine (cost_eval st) (int i + 1) (distribution st)]\<rparr>\<rparr>)"
  using assms by (simp add: bookkeeping_def)

text \<open>
  What the call of \<open>saveToDirectory\<close> returns is not looked at: whatever it returns, the
  bookkeeping goes on with the world the call has left.
\<close>

lemma bookkeeping_saves:
  assumes "bookkeeping E A i st = Inr st'" "save_directory A \<noteq> []" "\<not> only_learning_curve A"
  shows "\<exists>saved. saveToDirectory1 (save_directory A) (int i) (distribution st)
            (Some (cost_eval st)) (samples st) (costs st) (weights st) (distribution_new st)
            (default_overwrite E) (world st) = Inr (saved, world st')"
  using assms
  by (auto simp: bookkeeping_def split: if_splits sum.splits prod.splits
           dest!: update_learning_curve_Inr)

lemma update_learning_curve_world:
  "update_learning_curve E A i (st\<lparr>world := w\<rparr>) =
     (case update_learning_curve E A i st of Inl e \<Rightarrow> Inl e | Inr s \<Rightarrow> Inr (s\<lparr>world := w\<rparr>))"
  by (cases st) (simp add: update_learning_curve_def split: sum.splits)

text \<open>
  On another outside world the bookkeeping does the same, up to the world it leaves,
  unless a directory cannot be made there.
\<close>

lemma bookkeeping_world:
  assumes "bookkeeping E A i st = Inr st'"
  shows "bookkeeping E A i (st\<lparr>world := w\<rparr>) = Inl FilesystemError \<or>
         (\<exists>w2. bookkeeping E A i (st\<lparr>world := w\<rparr>) = Inr (st'\<lparr>world := w2\<rparr>))"
proof (cases "save_directory A = []")
  case True
  with assms have "st' = st\<lparr>world := (world st)\<lparr>cout := cout (world st) @
                [UpdateLine (cost_eval st) (int i + 1) (distribution st)]\<rparr>\<rparr>"
    by (simp add: bookkeeping_console)
  with True have "bookkeeping E A i (st\<lparr>world := w\<rparr>) =
      Inr (st'\<lparr>world := w\<lparr>cout := cout w @
                [UpdateLine (cost_eval st) (int i + 1) (distribution st)]\<rparr>\<rparr>)"
    by (simp add: bookkeeping_console)
  then show ?thesis by blast
next
  case False
  from assms False obtain st1 where lc: "update_learning_curve E A i st = Inr st1"
    by (auto simp: bookkeeping_def split: sum.splits)
  then have lc': "update_learning_curve E A i (st\<lparr>world := w\<rparr>) = Inr (st1\<lparr>world := w\<rparr>)"
    by (simp add: update_learning_curve_world)
  show ?thesis
  proof (cases "only_learning_curve A")
    case True
    with assms False lc have "st' = st1"
      by (simp add: bookkeeping_def)
    with True False lc' have "bookkeeping E A i (st\<lparr>world := w\<rparr>) = Inr (st'\<lparr>world := w\<rparr>)"
      by (simp add: bookkeeping_def)
    then show ?thesis by blast
  next
    case full: False
    from assms False full lc obtain w1 where st': "st' = st1\<lparr>world := w1\<rparr>"
      by (auto simp: bookkeeping_def split: sum.splits prod.splits)
    let ?save = "saveToDirectory1 (save_directory A) (int i) (distribution st1)
         (Some (cost_eval st1)) (samples st1) (costs st1) (weights st1) (distribution_new st1)
         (default_overwrite E) w"
    from saveToDirectory1_result consider "?save = Inl FilesystemError"
      | saved' w2 where "?save = Inr (saved', w2)"
      by blast
    then show ?thesis
    proof cases
      case 1
      with False full lc' have "bookkeeping E A i (st\<lparr>world := w\<rparr>) = Inl FilesystemError"
        by (simp add: bookkeeping_def)
      then show ?thesis ..
    next
      case 2
      with st' have "bookkeeping E A i (st\<lparr>world := w\<rparr>) = Inr (st'\<lparr>world := w2\<rparr>)"
        using False full lc' by (simp add: bookkeeping_def)
      then show ?thesis by blast
    qed
  qed
qed

subsection \<open>One pass\<close>

lemma update_step_Inr:
  assumes "update_step E A i st = Inr st'"
  obtains st2 st4 where
    "evaluate_samples E A 0 (draw_samples E A (evaluate_mean E st)) = Inr st2"
    "bookkeeping E A i (update E st2) = Inr st4"
    "st' = st4\<lparr>distribution := distribution_new st4\<rparr>"
  using assms by (auto simp: update_step_def split: sum.splits)

text \<open>A pass does the same on every outside world, up to the world it leaves.\<close>

lemma update_step_world:
  assumes "update_step E A i st = Inr st'"
  shows "update_step E A i (st\<lparr>world := w\<rparr>) = Inl FilesystemError \<or>
         (\<exists>w2. update_step E A i (st\<lparr>world := w\<rparr>) = Inr (st'\<lparr>world := w2\<rparr>))"
proof -
  from assms obtain st2 st4 where
    s2: "evaluate_samples E A 0 (draw_samples E A (evaluate_mean E st)) = Inr st2"
    and s4: "bookkeeping E A i (update E st2) = Inr st4"
    and st': "st' = st4\<lparr>distribution := distribution_new st4\<rparr>"
    by (rule update_step_Inr)
  from s2 have s2': "evaluate_samples E A 0 (draw_samples E A (evaluate_mean E (st\<lparr>world := w\<rparr>))) =
      Inr (st2\<lparr>world := w\<rparr>)"
    by (simp add: evaluate_mean_world draw_samples_world evaluate_samples_world)
  from bookkeeping_world [OF s4, of w] consider
      "bookkeeping E A i ((update E st2)\<lparr>world := w\<rparr>) = Inl FilesystemError"
    | w2 where "bookkeeping E A i ((update E st2)\<lparr>world := w\<rparr>) = Inr (st4\<lparr>world := w2\<rparr>)"
    by blast
  then show ?thesis
  proof cases
    case 1
    with s2' have "update_step E A i (st\<lparr>world := w\<rparr>) = Inl FilesystemError"
      by (simp add: update_step_def update_world)
    then show ?thesis ..
  next
    case 2
    with s2' st' have "update_step E A i (st\<lparr>world := w\<rparr>) = Inr (st'\<lparr>world := w2\<rparr>)"
      by (cases st4) (simp add: update_step_def update_world)
    then show ?thesis by blast
  qed
qed

lemma evaluate_mean_fields:
  "distribution (evaluate_mean E st) = distribution st"
  "distribution_new (evaluate_mean E st) = distribution_new st"
  "samples (evaluate_mean E st) = samples st"
  "costs (evaluate_mean E st) = costs st"
  "weights (evaluate_mean E st) = weights st"
  "learning_curve (evaluate_mean E st) = learning_curve st"
  "world (evaluate_mean E st) = world st"
  "cost_eval (evaluate_mean E st) = fst (evaluate E (mean (distribution st)) (hidden st))"
  "hidden (evaluate_mean E st) = snd (evaluate E (mean (distribution st)) (hidden st))"
  "calls (evaluate_mean E st) =
     calls st @ [EvaluateMean (mean (distribution st))
                   (fst (evaluate E (mean (distribution st)) (hidden st)))]"
  by (simp_all add: evaluate_mean_def split: prod.splits)

lemma draw_samples_fields:
  "distribution (draw_samples E A st) = distribution st"
  "distribution_new (draw_samples E A st) = distribution_new st"
  "cost_eval (draw_samples E A st) = cost_eval st"
  "costs (draw_samples E A st) = costs st"
  "weights (draw_samples E A st) = weights st"
  "learning_curve (draw_samples E A st) = learning_curve st"
  "world (draw_samples E A st) = world st"
  "samples (draw_samples E A st) =
     fst (generateSamples E (distribution st) (n_samples_per_update A) (hidden st))"
  "hidden (draw_samples E A st) =
     snd (generateSamples E (distribution st) (n_samples_per_update A) (hidden st))"
  "calls (draw_samples E A st) =
     calls st @ [GenerateSamples (distribution st) (n_samples_per_update A)
                   (fst (generateSamples E (distribution st) (n_samples_per_update A) (hidden st)))]"
  by (simp_all add: draw_samples_def split: prod.splits)

lemma update_fields:
  "distribution (update E st) = distribution st"
  "cost_eval (update E st) = cost_eval st"
  "samples (update E st) = samples st"
  "costs (update E st) = costs st"
  "learning_curve (update E st) = learning_curve st"
  "world (update E st) = world st"
  "weights (update E st) =
     fst (fst (updateDistribution E (distribution st) (samples st) (costs st) (weights st)
                 (distribution_new st) (hidden st)))"
  "distribution_new (update E st) =
     snd (fst (updateDistribution E (distribution st) (samples st) (costs st) (weights st)
                 (distribution_new st) (hidden st)))"
  "hidden (update E st) =
     snd (updateDistribution E (distribution st) (samples st) (costs st) (weights st)
            (distribution_new st) (hidden st))"
  "calls (update E st) =
     calls st @ [UpdateDistribution (distribution st) (samples st) (costs st)
       (fst (fst (updateDistribution E (distribution st) (samples st) (costs st) (weights st)
                    (distribution_new st) (hidden st))))
       (snd (fst (updateDistribution E (distribution st) (samples st) (costs st) (weights st)
                    (distribution_new st) (hidden st))))]"
  by (simp_all add: update_def split: prod.splits)

text \<open>
  A pass in full: the state it starts from, the state \<open>st2\<close> once the samples have their
  costs, and what the state it ends in holds.
\<close>

lemma update_step_fields:
  assumes "update_step E A i st = Inr st'"
  obtains st2 where
    "evaluate_samples E A 0 (draw_samples E A (evaluate_mean E st)) = Inr st2"
    "bookkeeping E A i (update E st2) = Inr (st'\<lparr>distribution := distribution st\<rparr>)"
    "distribution st2 = distribution st" "distribution_new st2 = distribution_new st"
    "weights st2 = weights st" "learning_curve st2 = learning_curve st" "world st2 = world st"
    "cost_eval st2 = fst (evaluate E (mean (distribution st)) (hidden st))"
    "samples st2 = fst (generateSamples E (distribution st) (n_samples_per_update A)
                          (snd (evaluate E (mean (distribution st)) (hidden st))))"
    "length (costs st2) = length (costs st)"
    "cost_eval st' = cost_eval st2" "samples st' = samples st2" "costs st' = costs st2"
    "weights st' = weights (update E st2)" "distribution_new st' = distribution_new (update E st2)"
    "distribution st' = distribution_new (update E st2)"
    "hidden st' = hidden (update E st2)" "calls st' = calls (update E st2)"
proof -
  from assms obtain st2 st4 where
    s2: "evaluate_samples E A 0 (draw_samples E A (evaluate_mean E st)) = Inr st2"
    and s4: "bookkeeping E A i (update E st2) = Inr st4"
    and st': "st' = st4\<lparr>distribution := distribution_new st4\<rparr>"
    by (rule update_step_Inr)
  note f2 = evaluate_samples_Inr [OF s2]
  note f4 = bookkeeping_Inr [OF s4]
  have undo: "st'\<lparr>distribution := distribution st\<rparr> = st4"
    using st' f4 f2 by (cases st4) (simp add: update_fields draw_samples_fields evaluate_mean_fields)
  show ?thesis
  proof (rule that [of st2])
    show "evaluate_samples E A 0 (draw_samples E A (evaluate_mean E st)) = Inr st2"
      by (rule s2)
    show "bookkeeping E A i (update E st2) = Inr (st'\<lparr>distribution := distribution st\<rparr>)"
      using s4 undo by simp
  qed (use f2 f4 st' in \<open>simp_all add: update_fields draw_samples_fields evaluate_mean_fields\<close>)
qed

subsection \<open>The loop as a sequence of passes\<close>

lemma after_updates_Inl:
  "after_updates E A h w k = Inl e \<Longrightarrow> k \<le> m \<Longrightarrow> after_updates E A h w m = Inl e"
  by (induction m) (auto simp: le_Suc_eq)

lemma optimization_loop_after_updates:
  assumes "after_updates E A h w k = Inr st" "int k \<le> n_updates A"
  shows "optimization_loop E A k st = after_updates E A h w (nat (n_updates A))"
  using assms
proof (induction "nat (n_updates A) - k" arbitrary: k st)
  case 0
  then have "k = nat (n_updates A)" by simp
  with 0 show ?case
    by (subst optimization_loop.simps) simp
next
  case (Suc d)
  then have less: "int k < n_updates A" by linarith
  show ?case
  proof (cases "update_step E A k st")
    case (Inl e)
    with Suc.prems have "after_updates E A h w (Suc k) = Inl e" by simp
    moreover from less have "Suc k \<le> nat (n_updates A)" by linarith
    ultimately have "after_updates E A h w (nat (n_updates A)) = Inl e"
      by (rule after_updates_Inl)
    with less Inl show ?thesis
      by (subst optimization_loop.simps) simp
  next
    case (Inr st')
    with Suc.prems have next_state: "after_updates E A h w (Suc k) = Inr st'" by simp
    from Suc.hyps(2) have "d = nat (n_updates A) - Suc k" by simp
    moreover from less have "int (Suc k) \<le> n_updates A" by simp
    ultimately have "optimization_loop E A (Suc k) st' = after_updates E A h w (nat (n_updates A))"
      using next_state by (intro Suc.hyps(1))
    with less Inr show ?thesis
      by (subst optimization_loop.simps) simp
  qed
qed

lemma initial_state_Inr:
  "initial_state E A h w = Inr st \<Longrightarrow> 0 \<le> n_updates A \<and> 0 \<le> n_samples_per_update A"
  by (auto simp: initial_state_def split: if_splits)

text \<open>The loop ends in the state after \<open>n_updates\<close> passes.\<close>

lemma run_loop_after_updates:
  "run_loop E A h w = after_updates E A h w (nat (n_updates A))"
proof (cases "initial_state E A h w")
  case (Inl e)
  then have "after_updates E A h w 0 = Inl e" by simp
  then have "after_updates E A h w (nat (n_updates A)) = Inl e"
    by (rule after_updates_Inl) simp
  with Inl show ?thesis by (simp add: run_loop_def)
next
  case (Inr st)
  then have "after_updates E A h w 0 = Inr st" by simp
  moreover from Inr have "int 0 \<le> n_updates A"
    by (simp add: initial_state_Inr)
  ultimately have "optimization_loop E A 0 st = after_updates E A h w (nat (n_updates A))"
    by (rule optimization_loop_after_updates)
  with Inr show ?thesis by (simp add: run_loop_def)
qed


subsection \<open>Sizes\<close>

lemma initial_state_well_sized: "initial_state E A h w = Inr st \<Longrightarrow> well_sized A st"
  by (auto simp: initial_state_def well_sized_def list_all_length split: if_splits)

lemma update_step_well_sized:
  assumes "update_step E A i st = Inr st'" "well_sized A st"
  shows "well_sized A st'"
proof -
  from assms(1) obtain st2 where
    s4: "bookkeeping E A i (update E st2) = Inr (st'\<lparr>distribution := distribution st\<rparr>)"
    and lc2: "learning_curve st2 = learning_curve st"
    and c2: "length (costs st2) = length (costs st)" and c': "costs st' = costs st2"
    by (rule update_step_fields)
  have "length (learning_curve st') = length (learning_curve st) \<and>
        list_all (\<lambda>r. length r = 3) (learning_curve st')"
  proof (cases "save_directory A = []")
    case True
    with s4 have "learning_curve st' = learning_curve (update E st2)"
      by (auto simp: bookkeeping_console dest: arg_cong [where f = learning_curve])
    with lc2 assms(2) show ?thesis
      by (simp add: update_fields well_sized_def)
  next
    case False
    from bookkeeping_learning_curve [OF s4 False] lc2
    have "learning_curve st' = (learning_curve st)
           [i := (learning_curve st ! i)
              [0 := of_int (int_times (int i) (n_samples_per_update A)),
               Suc 0 := cost_eval (update E st2),
               2 := sqrt (maxEigenValue E (distribution (update E st2)))]]"
      and "i < length (learning_curve st)"
      by (simp_all add: update_fields)
    with assms(2) show ?thesis
      by (auto simp: well_sized_def list_all_length nth_list_update)
  qed
  with assms(2) c2 c' show ?thesis
    by (simp add: well_sized_def)
qed

lemma after_updates_well_sized:
  "after_updates E A h w k = Inr st \<Longrightarrow> well_sized A st"
proof (induction k arbitrary: st)
  case 0
  then show ?case by (simp add: initial_state_well_sized)
next
  case (Suc k)
  then show ?case
    by (auto split: sum.splits intro: update_step_well_sized)
qed

subsection \<open>The rows of the learning curve\<close>

lemma update_step_learning_curve:
  assumes "update_step E A i st = Inr st'" "save_directory A \<noteq> []" "well_sized A st"
  shows "i < length (learning_curve st) \<and>
         learning_curve st' = (learning_curve st)[i := learning_curve_row E A i st]"
proof -
  from assms(1) obtain st2 where
    s4: "bookkeeping E A i (update E st2) = Inr (st'\<lparr>distribution := distribution st\<rparr>)"
    and lc2: "learning_curve st2 = learning_curve st"
    and d2: "distribution st2 = distribution st"
    and ce2: "cost_eval st2 = fst (evaluate E (mean (distribution st)) (hidden st))"
    by (rule update_step_fields)
  from bookkeeping_learning_curve [OF s4 assms(2)] lc2 d2 ce2
  have i: "i < length (learning_curve st)"
    and lc: "learning_curve st' = (learning_curve st)
           [i := (learning_curve st ! i)
              [0 := of_int (int_times (int i) (n_samples_per_update A)),
               Suc 0 := fst (evaluate E (mean (distribution st)) (hidden st)),
               2 := sqrt (maxEigenValue E (distribution st))]]"
    by (simp_all add: update_fields)
  from i assms(3) have "length (learning_curve st ! i) = 3"
    by (simp add: well_sized_def list_all_length)
  from three_updates [OF this] lc i show ?thesis
    by (simp add: learning_curve_row_def)
qed

text \<open>
  After \<open>k\<close> passes, every row below \<open>k\<close> is the row of its own pass: a later pass does
  not write it again.
\<close>

lemma after_updates_rows:
  assumes "after_updates E A h w k = Inr st" "save_directory A \<noteq> []" "i < k"
  shows "\<exists>st_i. after_updates E A h w i = Inr st_i \<and>
           i < length (learning_curve st) \<and>
           learning_curve st ! i = learning_curve_row E A i st_i"
  using assms(1, 3)
proof (induction k arbitrary: st)
  case 0
  then show ?case by simp
next
  case (Suc k)
  from Suc.prems(1) obtain st_k where k: "after_updates E A h w k = Inr st_k"
    and step: "update_step E A k st_k = Inr st"
    by (auto split: sum.splits)
  from update_step_learning_curve [OF step assms(2) after_updates_well_sized [OF k]]
  have len: "k < length (learning_curve st_k)"
    and lc: "learning_curve st = (learning_curve st_k)[k := learning_curve_row E A k st_k]"
    by simp_all
  show ?case
  proof (cases "i = k")
    case True
    with k len lc show ?thesis by simp
  next
    case False
    with Suc.prems(2) have "i < k" by simp
    from Suc.IH [OF k this] False lc show ?thesis by auto
  qed
qed

subsection \<open>The outside world has no say in the optimization\<close>

lemma initial_state_world:
  assumes "initial_state E A h w = Inr st"
  shows "\<exists>w2. initial_state E A h w' = Inr (st\<lparr>world := w2\<rparr>)"
  using assms by (auto simp: initial_state_def split: if_splits)

text \<open>
  The loop computes the same on every outside world, up to the world it leaves, unless a
  directory cannot be made there.
\<close>

lemma after_updates_world:
  assumes "after_updates E A h w k = Inr st"
  shows "after_updates E A h w' k = Inl FilesystemError \<or>
         (\<exists>w2. after_updates E A h w' k = Inr (st\<lparr>world := w2\<rparr>))"
  using assms
proof (induction k arbitrary: st)
  case 0
  then show ?case by (simp add: initial_state_world)
next
  case (Suc k)
  from Suc.prems obtain st_k where k: "after_updates E A h w k = Inr st_k"
    and step: "update_step E A k st_k = Inr st"
    by (auto split: sum.splits)
  from Suc.IH [OF k] consider "after_updates E A h w' k = Inl FilesystemError"
    | w2 where "after_updates E A h w' k = Inr (st_k\<lparr>world := w2\<rparr>)"
    by blast
  then show ?case
  proof cases
    case 1
    then show ?thesis by simp
  next
    case 2
    from update_step_world [OF step, of w2] 2 show ?thesis
      by auto
  qed
qed

lemma runOptimization_Inr:
  "(\<exists>r. runOptimization E A h w = Inr r) \<longleftrightarrow> (\<exists>st. run_loop E A h w = Inr st)"
  by (auto simp: runOptimization_def split: sum.splits)

subsection \<open>When the loop runs to its end\<close>

lemma evaluate_samples_completes:
  assumes "nat (n_samples_per_update A) \<le> matrix_rows (samples st)"
    and "nat (n_samples_per_update A) \<le> length (costs st)"
  shows "\<exists>st'. evaluate_samples E A i st = Inr st'"
  using assms
proof (induction E A i st rule: evaluate_samples.induct)
  case (1 E A i st)
  show ?case
  proof (cases "int i < n_samples_per_update A")
    case False
    then show ?thesis by (simp add: evaluate_samples_stop)
  next
    case True
    with "1.prems" have ok: "i < matrix_rows (samples st) \<and> i < length (costs st)"
      by linarith
    obtain c h' where ev: "evaluate E (samples st ! i) (hidden st) = (c, h')"
      by force
    from "1.IH" [OF True ok ev [symmetric]] "1.prems"
    have "\<exists>st'. evaluate_samples E A (Suc i)
        (st\<lparr>costs := (costs st)[i := c], hidden := h',
           calls := calls st @ [EvaluateSample i (samples st ! i) c]\<rparr>) = Inr st'"
      by simp
    with evaluate_samples_step [OF True _ _ ev] ok show ?thesis
      by simp
  qed
qed

lemma evaluate_samples_Inl:
  "evaluate_samples E A i st = Inl e \<Longrightarrow> e = AssertionFailed"
proof (induction E A i st rule: evaluate_samples.induct)
  case (1 E A i st)
  show ?case
  proof (cases "int i < n_samples_per_update A")
    case False
    with "1.prems" show ?thesis by (simp add: evaluate_samples_stop)
  next
    case True
    show ?thesis
    proof (cases "i < matrix_rows (samples st) \<and> i < length (costs st)")
      case False
      from evaluate_samples_assert [OF True this] "1.prems" show ?thesis by simp
    next
      case ok: True
      obtain c h' where ev: "evaluate E (samples st ! i) (hidden st) = (c, h')"
        by force
      from evaluate_samples_step [OF True _ _ ev] ok "1.prems"
      have "evaluate_samples E A (Suc i)
          (st\<lparr>costs := (costs st)[i := c], hidden := h',
             calls := calls st @ [EvaluateSample i (samples st ! i) c]\<rparr>) = Inl e"
        by simp
      from "1.IH" [OF True ok ev [symmetric] this] show ?thesis .
    qed
  qed
qed

text \<open>
  A pass on a file system that raises no exception: it completes when the sampler has
  given a row for each sample, and the file system still raises none afterwards.
\<close>

lemma update_step_completes:
  assumes "well_sized A st" "int i < n_updates A" "sampler_fills E A"
    and "mkdir_throws (world st) = {}"
  shows "\<exists>st'. update_step E A i st = Inr st' \<and> mkdir_throws (world st') = {}"
proof -
  let ?st1 = "draw_samples E A (evaluate_mean E st)"
  from assms(3) have "nat (n_samples_per_update A) \<le> matrix_rows (samples ?st1)"
    by (simp add: sampler_fills_def draw_samples_fields evaluate_mean_fields)
  moreover from assms(1) have "nat (n_samples_per_update A) \<le> length (costs ?st1)"
    by (simp add: well_sized_def draw_samples_fields evaluate_mean_fields)
  ultimately obtain st2 where s2: "evaluate_samples E A 0 ?st1 = Inr st2"
    using evaluate_samples_completes by blast
  from evaluate_samples_Inr [OF s2] have lc2: "learning_curve st2 = learning_curve st"
    and w2: "world st2 = world st"
    by (simp_all add: draw_samples_fields evaluate_mean_fields)
  have "\<exists>st4. bookkeeping E A i (update E st2) = Inr st4 \<and> mkdir_throws (world st4) = {}"
  proof (cases "save_directory A = []")
    case True
    with w2 assms(4) show ?thesis by (simp add: bookkeeping_console update_fields)
  next
    case False
    from assms(1, 2) lc2 have "i < length (learning_curve (update E st2))"
      and "length (learning_curve (update E st2) ! i) = 3"
      by (simp_all add: update_fields well_sized_def list_all_length)
    then obtain st3 where
      lc: "update_learning_curve E A i (update E st2) = Inr st3"
      using update_learning_curve_ok by blast
    from update_learning_curve_Inr [OF lc] w2 assms(4) have w3: "mkdir_throws (world st3) = {}"
      by (simp add: update_fields)
    show ?thesis
    proof (cases "only_learning_curve A")
      case True
      with False lc w3 show ?thesis by (simp add: bookkeeping_def)
    next
      case full: False
      from saveToDirectory1_returns [OF w3] obtain saved w' where
        "saveToDirectory1 (save_directory A) (int i) (distribution st3) (Some (cost_eval st3))
           (samples st3) (costs st3) (weights st3) (distribution_new st3) (default_overwrite E)
           (world st3) = Inr (saved, w')" "mkdir_throws w' = {}"
        by blast
      with False full lc show ?thesis by (simp add: bookkeeping_def)
    qed
  qed
  with s2 show ?thesis
    by (auto simp: update_step_def)
qed

lemma after_updates_completes:
  assumes "0 \<le> n_updates A" "0 \<le> n_samples_per_update A" "sampler_fills E A"
    and "mkdir_throws w = {}"
    and "int k \<le> n_updates A"
  shows "\<exists>st. after_updates E A h w k = Inr st \<and> mkdir_throws (world st) = {}"
  using assms(5)
proof (induction k)
  case 0
  with assms(1, 2, 4) show ?case by (simp add: initial_state_def)
next
  case (Suc k)
  then obtain st where k: "after_updates E A h w k = Inr st" and quiet: "mkdir_throws (world st) = {}"
    by auto
  from Suc.prems have less: "int k < n_updates A" by simp
  from update_step_completes [OF after_updates_well_sized [OF k] less assms(3) quiet] k
  show ?case by simp
qed

text \<open>
  On a file system that raises no exception, the run does not end by one.
\<close>

lemma run_loop_completes:
  assumes "0 \<le> n_updates A" "0 \<le> n_samples_per_update A" "sampler_fills E A"
    and "mkdir_throws w = {}"
  shows "\<exists>st. run_loop E A h w = Inr st"
proof -
  from assms(1) have "int (nat (n_updates A)) \<le> n_updates A" by simp
  from after_updates_completes [OF assms this] show ?thesis
    by (auto simp: run_loop_after_updates)
qed

subsection \<open>The end of a pass and the checkpoint it writes\<close>

lemma pass_ends_with_update:
  assumes "update_step E A i st = Inr st'"
  shows "(\<exists>h'. distribution st' =
            snd (fst (updateDistribution E (distribution st) (samples st') (costs st')
                        (weights st) (distribution_new st) h'))) \<and>
         last (calls st') =
           UpdateDistribution (distribution st) (samples st') (costs st') (weights st')
             (distribution st') \<and>
         distribution_new st' = distribution st'"
proof -
  from assms obtain st2 where
    "distribution st2 = distribution st" "distribution_new st2 = distribution_new st"
    "weights st2 = weights st" "samples st' = samples st2" "costs st' = costs st2"
    "weights st' = weights (update E st2)" "distribution_new st' = distribution_new (update E st2)"
    "distribution st' = distribution_new (update E st2)" "calls st' = calls (update E st2)"
    by (rule update_step_fields)
  then have "distribution st' =
      snd (fst (updateDistribution E (distribution st) (samples st') (costs st')
                  (weights st) (distribution_new st) (hidden st2)))"
    and "last (calls st') =
      UpdateDistribution (distribution st) (samples st') (costs st') (weights st')
        (distribution st')"
    and "distribution_new st' = distribution st'"
    by (simp_all add: update_fields)
  then show ?thesis by blast
qed

text \<open>
  The checkpoint of a pass: the call is made in the world the pass started in, on the
  distribution it started with and on what the pass has computed, and the pass ends in the
  world the call leaves, whatever the call returns.
\<close>

lemma pass_saves:
  assumes "update_step E A i st = Inr st'" "save_directory A \<noteq> []" "\<not> only_learning_curve A"
  shows "\<exists>saved. saveToDirectory1 (save_directory A) (int i) (distribution st)
            (Some (cost_eval st')) (samples st') (costs st') (weights st') (distribution st')
            (default_overwrite E) (world st) = Inr (saved, world st')"
proof -
  from assms(1) obtain st2 where
    s4: "bookkeeping E A i (update E st2) = Inr (st'\<lparr>distribution := distribution st\<rparr>)"
    and f: "distribution st2 = distribution st" "world st2 = world st"
      "cost_eval st' = cost_eval st2" "samples st' = samples st2" "costs st' = costs st2"
      "weights st' = weights (update E st2)" "distribution st' = distribution_new (update E st2)"
    by (rule update_step_fields)
  from bookkeeping_saves [OF s4 assms(2, 3)] f show ?thesis
    by (simp add: update_fields)
qed

lemma saveToDirectory1_saved:
  assumes "saveToDirectory1 directory i d ce xs cs ws d_new ow w = Inr (True, w')"
  shows "(update_directory directory i @ ''/distribution_new_mean.txt'', VectorXd (mean d_new))
           \<in> set (files w') \<and>
         (update_directory directory i @ ''/distribution_new_covar.txt'', MatrixXd (covar d_new))
           \<in> set (files w')"
proof -
  from assms have "saveToDirectory directory i [d] ce xs cs ws [d_new] ow w = Inr (True, w')"
    by (simp add: saveToDirectory1_def)
  from saveToDirectory_outcome [OF this]
  have "files w' = files w @ map (in_dir (update_directory directory i))
      (checkpoint_files [d] ce xs cs ws [d_new])"
    by auto
  then show ?thesis
    by (simp add: checkpoint_files_def single_files_def in_dir_def)
qed


lemma saveMatrix_keeps_files:
  "set (files w) \<subseteq> set (files (snd (saveMatrix dir f d ow w)))"
  by (auto simp: saveMatrix_def save_to_def)

lemma last_pass:
  assumes "run_loop E A h w = Inr st" "0 < n_updates A"
  obtains st_p where "after_updates E A h w (nat (n_updates A) - 1) = Inr st_p"
    "update_step E A (nat (n_updates A) - 1) st_p = Inr st"
proof -
  from assms(2) have n: "nat (n_updates A) = Suc (nat (n_updates A) - 1)" by simp
  from assms(1) have "after_updates E A h w (Suc (nat (n_updates A) - 1)) = Inr st"
    by (simp only: run_loop_after_updates n [symmetric])
  then show thesis
    by (auto split: sum.splits intro: that)
qed
section \<open>The rollouts\<close>

subsection \<open>What a call that returns has done\<close>








subsection \<open>The blocks lie inside the matrix\<close>



subsection \<open>The number of columns\<close>


lemma as_int_id: "- (2 ^ 31) \<le> x \<Longrightarrow> x < 2 ^ 31 \<Longrightarrow> as_int x = x"
  by (simp add: as_int_def)



subsection \<open>When the call returns\<close>





subsection \<open>\<open>performRollouts\<close>\<close>




section \<open>The optimization loop: claims C1 to C6\<close>

text \<open>
  In the theorems below \<open>after_updates E A h w i\<close> is the state in which pass \<open>i\<close> of the
  loop starts and \<open>after_updates E A h w (Suc i)\<close> the state in which it ends; the loop
  itself ends in \<open>after_updates E A h w (nat (n_updates A))\<close> (lemma
  \<open>run_loop_after_updates\<close>).
\<close>

lemma one_sample:
  "n_samples_per_update A = 1 \<Longrightarrow> 0 < matrix_rows (samples st) \<Longrightarrow> 0 < length (costs st) \<Longrightarrow>
   evaluate E (samples st ! 0) (hidden st) = (c, h') \<Longrightarrow>
   evaluate_samples E A 0 st =
     Inr (st\<lparr>costs := (costs st)[0 := c], hidden := h',
            calls := calls st @ [EvaluateSample 0 (samples st ! 0) c]\<rparr>)"
  by (simp add: evaluate_samples_step [where i = 0] evaluate_samples_stop)

lemmas loop_eval =
  initial_state_def update_step_def evaluate_mean_def draw_samples_def update_def
  bookkeeping_def halving_def idle_def sphere_def shifted_normal_def one_sample matrix_rows_def
  two_updates_def one_update_console_def no_update_console_def empty_disk_def

lemma one_update_halving:
  "after_updates halving one_update_console 0 empty_disk (Suc 0) =
     Inr \<lparr>distribution = \<lparr>mean = [1 / 2, 1], covar = [[1, 0], [0, 1]]\<rparr>,
          distribution_new = \<lparr>mean = [1 / 2, 1], covar = [[1, 0], [0, 1]]\<rparr>,
          cost_eval = 5, samples = [[2, 3]], costs = [13], weights = [1],
          learning_curve = [[0, 0, 0]], hidden = 4,
          world = empty_disk\<lparr>cout := [InitLine shifted_normal, UpdateLine 5 1 shifted_normal]\<rparr>,
          calls = [EvaluateMean [1, 2] 5, GenerateSamples shifted_normal 1 [[2, 3]],
                   EvaluateSample 0 [2, 3] 13,
                   UpdateDistribution shifted_normal [[2, 3]] [13] [1]
                     \<lparr>mean = [1 / 2, 1], covar = [[1, 0], [0, 1]]\<rparr>]\<rparr>"
  by (simp add: loop_eval)

lemma one_update_idle:
  "after_updates idle one_update_console 0 empty_disk (Suc 0) =
     Inr \<lparr>distribution = shifted_normal,
          distribution_new = shifted_normal,
          cost_eval = 5, samples = [[2, 3]], costs = [13], weights = [1],
          learning_curve = [[0, 0, 0]], hidden = 4,
          world = empty_disk\<lparr>cout := [InitLine shifted_normal, UpdateLine 5 1 shifted_normal]\<rparr>,
          calls = [EvaluateMean [1, 2] 5, GenerateSamples shifted_normal 1 [[2, 3]],
                   EvaluateSample 0 [2, 3] 13,
                   UpdateDistribution shifted_normal [[2, 3]] [13] [1] shifted_normal]\<rparr>"
  by (simp add: loop_eval)

lemma console_start:
  "after_updates halving one_update_console 0 empty_disk 0 =
     Inr \<lparr>distribution = shifted_normal, distribution_new = shifted_normal,
          cost_eval = 0, samples = [], costs = [0], weights = [],
          learning_curve = [[0, 0, 0]], hidden = 0,
          world = empty_disk\<lparr>cout := [InitLine shifted_normal]\<rparr>,
          calls = []\<rparr>"
  by (simp add: loop_eval)

text \<open>
  C1. When pass \<open>i\<close> of the loop has completed, the loop's distribution is the new
  distribution that the updater returned in that pass: the last call of the pass is the
  updater's, made on the distribution the pass started with, and what it returned as the new
  distribution is what \<open>distribution\<close> and \<open>distribution_new\<close> both hold afterwards. No
  test stands between the call and the assignment. The loop of \<open>runOptimization\<close> ends
  in the state after \<open>n_updates\<close> such passes.
\<close>

theorem update_accepted:
  assumes "after_updates E A h w i = Inr st" and "after_updates E A h w (Suc i) = Inr st'"
  shows "(\<exists>h'. distribution st' =
            snd (fst (updateDistribution E (distribution st) (samples st') (costs st')
                        (weights st) (distribution_new st) h'))) \<and>
         last (calls st') =
           UpdateDistribution (distribution st) (samples st') (costs st') (weights st')
             (distribution st') \<and>
         distribution_new st' = distribution st' \<and>
         run_loop E A h w = after_updates E A h w (nat (n_updates A))"
proof -
  from assms have "update_step E A i st = Inr st'" by simp
  from pass_ends_with_update [OF this] run_loop_after_updates [of E A h w] show ?thesis
    by (intro conjI) simp_all
qed

theorem update_accepted_witness:
  "\<exists>st st'. after_updates halving one_update_console 0 empty_disk 0 = Inr st \<and>
     after_updates halving one_update_console 0 empty_disk (Suc 0) = Inr st' \<and>
     distribution st = \<lparr>mean = [1, 2], covar = [[1, 0], [0, 1]]\<rparr> \<and>
     distribution st' = \<lparr>mean = [1 / 2, 1], covar = [[1, 0], [0, 1]]\<rparr> \<and>
     last (calls st') =
       UpdateDistribution (distribution st) (samples st') (costs st') (weights st')
         (distribution st')"
proof -
  note t = update_accepted [OF console_start one_update_halving]
  from t have "last (calls \<lparr>distribution = \<lparr>mean = [1 / 2, 1], covar = [[1, 0], [0, 1]]\<rparr>,
          distribution_new = \<lparr>mean = [1 / 2, 1], covar = [[1, 0], [0, 1]]\<rparr>,
          cost_eval = 5, samples = [[2, 3]], costs = [13], weights = [1],
          learning_curve = [[0, 0, 0]], hidden = (4::nat),
          world = empty_disk\<lparr>cout := [InitLine shifted_normal, UpdateLine 5 1 shifted_normal]\<rparr>,
          calls = [EvaluateMean [1, 2] 5, GenerateSamples shifted_normal 1 [[2, 3]],
                   EvaluateSample 0 [2, 3] 13,
                   UpdateDistribution shifted_normal [[2, 3]] [13] [1]
                     \<lparr>mean = [1 / 2, 1], covar = [[1, 0], [0, 1]]\<rparr>]\<rparr>) =
       UpdateDistribution shifted_normal [[2, 3]] [13] [1]
         \<lparr>mean = [1 / 2, 1], covar = [[1, 0], [0, 1]]\<rparr>"
    by simp
  with console_start one_update_halving show ?thesis
    by (simp add: shifted_normal_def)
qed

text \<open>
  The rows of the learning curve in general. Row \<open>i\<close> holds the product of the two
  \<open>int\<close>, \<open>i_update * n_samples_per_update\<close>, as an \<open>int\<close>; the cost of the mean of the
  distribution that pass \<open>i\<close> started with; and the square root of that distribution's
  largest eigenvalue. The first is the number of samples so far as long as that number is
  below \<open>2 ^ 31\<close>.
\<close>

lemma learning_curve_rows:
  assumes "run_loop E A h w = Inr st" and "save_directory A \<noteq> []" and "int i < n_updates A"
  shows "\<exists>st_i. after_updates E A h w i = Inr st_i \<and>
           i < length (learning_curve st) \<and>
           learning_curve st ! i =
             [of_int (as_int (int i * n_samples_per_update A)),
              fst (evaluate E (mean (distribution st_i)) (hidden st_i)),
              sqrt (maxEigenValue E (distribution st_i))] \<and>
           length (learning_curve st) = nat (n_updates A) \<and>
           runOptimization E A h w =
             Inr (snd (saveMatrix (save_directory A) ''learning_curve.txt''
                         (MatrixXd (learning_curve st)) (overwrite A) (world st)), hidden st)"
proof -
  from assms(1) have end_state: "after_updates E A h w (nat (n_updates A)) = Inr st"
    by (simp add: run_loop_after_updates)
  from assms(3) have "i < nat (n_updates A)" by simp
  from after_updates_rows [OF end_state assms(2) this] obtain st_i where
    "after_updates E A h w i = Inr st_i" "i < length (learning_curve st)"
    "learning_curve st ! i = learning_curve_row E A i st_i"
    by blast
  moreover from after_updates_well_sized [OF end_state]
  have "length (learning_curve st) = nat (n_updates A)"
    by (simp add: well_sized_def)
  moreover from assms(1, 2) have "runOptimization E A h w =
      Inr (snd (saveMatrix (save_directory A) ''learning_curve.txt''
                  (MatrixXd (learning_curve st)) (overwrite A) (world st)), hidden st)"
    by (simp add: runOptimization_def)
  ultimately show ?thesis
    by (auto simp: learning_curve_row_def int_times_def)
qed

lemma learning_curve_rows_in_range:
  assumes "run_loop E A h w = Inr st" and "save_directory A \<noteq> []" and "int i < n_updates A"
    and "int i * n_samples_per_update A < 2 ^ 31"
  shows "learning_curve st ! i ! 0 = of_int (int i * n_samples_per_update A)"
proof -
  from assms(1) have "0 \<le> n_samples_per_update A"
    by (auto simp: run_loop_def initial_state_def split: if_splits sum.splits)
  then have "0 \<le> int i * n_samples_per_update A" by simp
  moreover have "- (2 ^ 31) \<le> (0::int)" by simp
  ultimately have "- (2 ^ 31) \<le> int i * n_samples_per_update A"
    by (rule order_trans [rotated])
  with assms(4) have "as_int (int i * n_samples_per_update A) = int i * n_samples_per_update A"
    by (rule as_int_id [rotated])
  with learning_curve_rows [OF assms(1-3)] show ?thesis
    by auto
qed

lemma halving_fills: "sampler_fills halving A"
  by (simp add: sampler_fills_def halving_def matrix_rows_def)

lemma long_run_completes: "\<exists>st. run_loop halving long_run 0 empty_disk = Inr st"
  by (rule run_loop_completes)
     (simp_all add: halving_fills, simp_all add: long_run_def two_updates_def empty_disk_def)

text \<open>
  C2. The claim holds for the rows whose sample count is below \<open>2 ^ 31\<close>. In the run
  \<open>long_run\<close>, of 65537 updates with 32768 samples each, which saves the learning
  curve and nothing else, pass 65536 starts after
  \<open>2 ^ 31\<close> samples: the product of the two \<open>int\<close> is outside the range of an \<open>int\<close>,
  and the row holds \<open>- 2 ^ 31\<close> where the number of samples so far is \<open>2 ^ 31\<close>. The
  rows before it hold the number of samples so far, as row 1 does.
\<close>

theorem learning_curve_sample_count_wraps:
  "(case run_loop halving long_run 0 empty_disk of
      Inl e \<Rightarrow> False
    | Inr st \<Rightarrow> learning_curve st ! 65536 ! 0 = - 2147483648 \<and>
               learning_curve st ! 1 ! 0 = 32768 \<and>
               length (learning_curve st) = 65537) \<and>
   int 65536 * n_samples_per_update long_run = 2147483648 \<and>
   int 65536 < n_updates long_run \<and> save_directory long_run \<noteq> []"
proof -
  from long_run_completes obtain st where run: "run_loop halving long_run 0 empty_disk = Inr st"
    by blast
  have args: "save_directory long_run \<noteq> []" "int 65536 < n_updates long_run"
    "int 1 < n_updates long_run"
    and known: "n_samples_per_update long_run = 32768" "nat (n_updates long_run) = 65537"
    by (simp_all add: long_run_def two_updates_def)
  from learning_curve_rows [OF run args(1, 2)]
  have last: "learning_curve st ! 65536 ! 0 = of_int (as_int (int 65536 * 32768))"
    and len: "length (learning_curve st) = 65537"
    by (auto simp: known)
  from learning_curve_rows [OF run args(1, 3)]
  have second: "learning_curve st ! 1 ! 0 = of_int (as_int (int 1 * 32768))"
    by (auto simp: known)
  have "as_int (int 65536 * 32768) = - 2147483648" "as_int (int 1 * 32768) = 32768"
    by (simp_all add: as_int_def)
  with last second len have "learning_curve st ! 65536 ! 0 = - 2147483648 \<and>
               learning_curve st ! 1 ! 0 = 32768 \<and> length (learning_curve st) = 65537"
    by simp
  with run args known show ?thesis
    by simp
qed

text \<open>
  C3. In every pass that completes, the cost function is evaluated at the mean of the
  distribution the pass starts with exactly once. This evaluation is the first call of the
  pass, made in the hidden state in which the pass starts, the call that draws the samples
  comes right after it, and no later call of the pass is an evaluation of the mean. What
  it returns is the \<open>cost_eval\<close> of the pass: nothing of an earlier pass is used again.
  The loop of \<open>runOptimization\<close> ends in the state after \<open>n_updates\<close> such passes.
\<close>

theorem probe_before_sampling:
  assumes "after_updates E A h w i = Inr st" and "after_updates E A h w (Suc i) = Inr st'"
  shows "\<exists>c h1 s h2 rest.
           evaluate E (mean (distribution st)) (hidden st) = (c, h1) \<and>
           generateSamples E (distribution st) (n_samples_per_update A) h1 = (s, h2) \<and>
           cost_eval st' = c \<and> samples st' = s \<and>
           calls st' = calls st @
             EvaluateMean (mean (distribution st)) c #
             GenerateSamples (distribution st) (n_samples_per_update A) s # rest \<and>
           (\<forall>e\<in>set rest. \<not> is_EvaluateMean e) \<and>
           run_loop E A h w = after_updates E A h w (nat (n_updates A))"
proof -
  note run = run_loop_after_updates [of E A h w]
  from assms have "update_step E A i st = Inr st'" by simp
  then obtain st2 where
    s2: "evaluate_samples E A 0 (draw_samples E A (evaluate_mean E st)) = Inr st2"
    and ce: "cost_eval st' = cost_eval st2" and xs: "samples st' = samples st2"
    and calls: "calls st' = calls (update E st2)"
    by (rule update_step_fields)
  obtain c h1 where ev: "evaluate E (mean (distribution st)) (hidden st) = (c, h1)"
    by force
  obtain s h2 where gen: "generateSamples E (distribution st) (n_samples_per_update A) h1 = (s, h2)"
    by force
  from evaluate_samples_Inr [OF s2] obtain evs where
    ce2: "cost_eval st2 = c" and xs2: "samples st2 = s"
    and calls2: "calls st2 = (calls st @ [EvaluateMean (mean (distribution st)) c,
        GenerateSamples (distribution st) (n_samples_per_update A) s]) @ evs"
    and evs: "\<forall>e\<in>set evs. \<not> is_EvaluateMean e"
    using ev gen by (auto simp: draw_samples_fields evaluate_mean_fields)
  let ?rest = "evs @ [UpdateDistribution (distribution st2) (samples st2) (costs st2)
     (weights (update E st2)) (distribution_new (update E st2))]"
  from calls calls2 have "calls st' = calls st @
      EvaluateMean (mean (distribution st)) c #
      GenerateSamples (distribution st) (n_samples_per_update A) s # ?rest"
    by (simp add: update_fields)
  moreover from evs have "\<forall>e\<in>set ?rest. \<not> is_EvaluateMean e"
    by simp
  ultimately show ?thesis
    using ev gen ce xs ce2 xs2 run by blast
qed

theorem probe_before_sampling_witness:
  "\<exists>st st'. after_updates halving one_update_console 0 empty_disk 0 = Inr st \<and>
     after_updates halving one_update_console 0 empty_disk (Suc 0) = Inr st' \<and>
     evaluate halving (mean (distribution st)) (hidden st) = (5, 1) \<and>
     cost_eval st' = 5 \<and>
     calls st' = [EvaluateMean [1, 2] 5, GenerateSamples shifted_normal 1 [[2, 3]],
                  EvaluateSample 0 [2, 3] 13,
                  UpdateDistribution shifted_normal [[2, 3]] [13] [1]
                    \<lparr>mean = [1 / 2, 1], covar = [[1, 0], [0, 1]]\<rparr>] \<and>
     length (filter is_EvaluateMean (calls st')) = 1"
proof -
  from probe_before_sampling [OF console_start one_update_halving]
  obtain c h1 where "evaluate halving [1, 2] (0::nat) = (c, h1)"
    and "(5::real) = c"
    by (auto simp: shifted_normal_def)
  then have "evaluate halving [1, 2] (0::nat) = (5, h1)"
    by simp
  moreover have "snd (evaluate halving [1, 2] (0::nat)) = 1"
    by (simp add: halving_def)
  ultimately have "evaluate halving [1, 2] (0::nat) = (5, 1)"
    by simp
  with console_start one_update_halving show ?thesis
    by (simp add: shifted_normal_def)
qed

text \<open>
  C4, as the claim states it, does not hold: \<open>runOptimization\<close> has no check of
  \<open>n_updates \<ge> 1\<close> or \<open>n_samples_per_update \<ge> 1\<close>. With both counts 0 the run ends
  normally, after the line about the initial distribution.
\<close>

theorem zero_counts_accepted:
  "n_updates no_update_console = 0 \<and> n_samples_per_update no_update_console = 0 \<and>
   runOptimization halving no_update_console 0 empty_disk =
     Inr (empty_disk\<lparr>cout := [InitLine shifted_normal]\<rparr>, 0)"
  by (simp add: runOptimization_def run_loop_after_updates loop_eval)

text \<open>
  C4, amended. A count of 0 is accepted. With \<open>n_updates = 0\<close> the loop makes no pass and
  no call to the collaborators, and the run ends normally. With \<open>n_samples_per_update = 0\<close>
  the run ends normally as well, on a file system that raises no exception. Only a
  negative count stops the run before the loop, and this through Eigen's assertion on the
  size of \<open>costs\<close> or of \<open>learning_curve\<close>.
\<close>

theorem counts_not_validated:
  "(n_updates A = 0 \<and> 0 \<le> n_samples_per_update A \<longrightarrow>
      (\<exists>st. run_loop E A h w = Inr st \<and> calls st = [] \<and> hidden st = h \<and>
            distribution st = initial_distribution A) \<and>
      (\<exists>r. runOptimization E A h w = Inr r)) \<and>
   (n_samples_per_update A = 0 \<and> 0 \<le> n_updates A \<and> mkdir_throws w = {} \<longrightarrow>
      (\<exists>r. runOptimization E A h w = Inr r)) \<and>
   (n_samples_per_update A < 0 \<or> n_updates A < 0 \<longrightarrow>
      runOptimization E A h w = Inl AssertionFailed)"
proof (intro conjI impI)
  assume zero: "n_updates A = 0 \<and> 0 \<le> n_samples_per_update A"
  then show "\<exists>st. run_loop E A h w = Inr st \<and> calls st = [] \<and> hidden st = h \<and>
      distribution st = initial_distribution A"
    by (simp add: run_loop_after_updates initial_state_def)
  then have "\<exists>st. run_loop E A h w = Inr st"
    by blast
  then show "\<exists>r. runOptimization E A h w = Inr r"
    by (rule iffD2 [OF runOptimization_Inr])
next
  assume zero: "n_samples_per_update A = 0 \<and> 0 \<le> n_updates A \<and> mkdir_throws w = {}"
  then have "\<exists>st. run_loop E A h w = Inr st"
    by (intro run_loop_completes) (simp_all add: sampler_fills_def)
  then show "\<exists>r. runOptimization E A h w = Inr r"
    by (rule iffD2 [OF runOptimization_Inr])
next
  assume "n_samples_per_update A < 0 \<or> n_updates A < 0"
  then have "initial_state E A h w = Inl AssertionFailed"
    by (auto simp: initial_state_def)
  then have "after_updates E A h w 0 = Inl AssertionFailed" by simp
  then have "after_updates E A h w (nat (n_updates A)) = Inl AssertionFailed"
    by (rule after_updates_Inl) simp
  then show "runOptimization E A h w = Inl AssertionFailed"
    by (simp add: runOptimization_def run_loop_after_updates)
qed

theorem counts_not_validated_witness:
  "n_updates no_update_console = 0 \<and> n_samples_per_update no_update_console = 0 \<and>
   (\<exists>st. run_loop halving no_update_console 0 empty_disk = Inr st \<and> calls st = [] \<and>
      distribution st = shifted_normal) \<and>
   (\<exists>r. runOptimization halving no_update_console 0 empty_disk = Inr r) \<and>
   n_samples_per_update zero_samples = 0 \<and> 0 \<le> n_updates zero_samples \<and>
   mkdir_throws empty_disk = {} \<and>
   (\<exists>r. runOptimization halving zero_samples 0 empty_disk = Inr r) \<and>
   n_updates negative_updates < 0 \<and>
   runOptimization halving negative_updates 0 empty_disk = Inl AssertionFailed"
proof -
  have zero: "n_updates no_update_console = 0" "n_samples_per_update no_update_console = 0"
    "initial_distribution no_update_console = shifted_normal"
    by (simp_all add: no_update_console_def two_updates_def)
  have negative: "n_updates negative_updates < 0"
    by (simp add: negative_updates_def two_updates_def)
  from counts_not_validated [of no_update_console halving 0 empty_disk] zero
  have "(\<exists>st. run_loop halving no_update_console 0 empty_disk = Inr st \<and> calls st = [] \<and>
      distribution st = shifted_normal)"
    and "\<exists>r. runOptimization halving no_update_console 0 empty_disk = Inr r"
    by auto
  moreover have none: "n_samples_per_update zero_samples = 0" "0 \<le> n_updates zero_samples"
    "mkdir_throws empty_disk = {}"
    by (simp_all add: zero_samples_def two_updates_def empty_disk_def)
  moreover from counts_not_validated [of zero_samples halving 0 empty_disk] none
  have "\<exists>r. runOptimization halving zero_samples 0 empty_disk = Inr r"
    by blast
  moreover from counts_not_validated [of negative_updates halving 0 empty_disk] negative
  have "runOptimization halving negative_updates 0 empty_disk = Inl AssertionFailed"
    by blast
  ultimately show ?thesis
    using zero negative by blast
qed

text \<open>
  C5, as the claim states it, does not hold: \<open>runOptimization\<close> returns \<open>void\<close>. Two runs
  that differ only in the updater end with different distributions and leave exactly the
  same to their caller, so the caller cannot have received the final distribution.
\<close>

theorem final_distribution_not_returned:
  "runOptimization halving one_update_console 0 empty_disk =
     runOptimization idle one_update_console 0 empty_disk \<and>
   runOptimization halving one_update_console 0 empty_disk =
     Inr (empty_disk\<lparr>cout := [InitLine shifted_normal, UpdateLine 5 1 shifted_normal]\<rparr>, 4) \<and>
   map_sum id distribution (run_loop halving one_update_console 0 empty_disk) =
     Inr \<lparr>mean = [1 / 2, 1], covar = [[1, 0], [0, 1]]\<rparr> \<and>
   map_sum id distribution (run_loop idle one_update_console 0 empty_disk) =
     Inr \<lparr>mean = [1, 2], covar = [[1, 0], [0, 1]]\<rparr>"
proof -
  have n: "nat (n_updates one_update_console) = Suc 0"
    "save_directory one_update_console = []"
    by (simp_all add: one_update_console_def two_updates_def)
  have halving: "run_loop halving one_update_console 0 empty_disk =
      after_updates halving one_update_console 0 empty_disk (Suc 0)"
    and idle: "run_loop idle one_update_console 0 empty_disk =
      after_updates idle one_update_console 0 empty_disk (Suc 0)"
    by (simp_all only: run_loop_after_updates n)
  show ?thesis
    unfolding runOptimization_def halving idle one_update_halving one_update_idle
    by (simp add: n shifted_normal_def)
qed

text \<open>
  C5, amended. \<open>runOptimization\<close> returns nothing. When the loop has ended after at least
  one pass, its \<open>distribution\<close> is the new distribution that the updater returned in its
  last call, and this is so on every outside world on which the run does not end by the
  exception of a directory that cannot be made, whether the checkpoints could be written
  or not. The caller receives it only through the files: with a save directory
  and without \<open>only_learning_curve\<close>, the last pass calls \<open>saveToDirectory\<close> with it, and
  when that call returns true, \<open>distribution_new_mean.txt\<close> and
  \<open>distribution_new_covar.txt\<close> of the last update's directory hold its mean and its
  covariance when \<open>runOptimization\<close> returns.
\<close>

theorem final_distribution_in_loop:
  assumes "run_loop E A h w = Inr st" and "0 < n_updates A"
  shows "(\<exists>d s c wts. last (calls st) = UpdateDistribution d s c wts (distribution st)) \<and>
         (\<forall>w'. run_loop E A h w' = Inl FilesystemError \<or>
               (\<exists>st'. run_loop E A h w' = Inr st' \<and> distribution st' = distribution st)) \<and>
         (\<exists>w_end. runOptimization E A h w = Inr (w_end, hidden st) \<and>
            (save_directory A \<noteq> [] \<and> \<not> only_learning_curve A \<longrightarrow>
               (\<exists>st_p saved.
                  after_updates E A h w (nat (n_updates A) - 1) = Inr st_p \<and>
                  saveToDirectory1 (save_directory A) (n_updates A - 1) (distribution st_p)
                    (Some (cost_eval st)) (samples st) (costs st) (weights st) (distribution st)
                    (default_overwrite E) (world st_p) = Inr (saved, world st) \<and>
                  (saved \<longrightarrow>
                     (update_directory (save_directory A) (n_updates A - 1) @
                        ''/distribution_new_mean.txt'', VectorXd (mean (distribution st)))
                       \<in> set (files w_end) \<and>
                     (update_directory (save_directory A) (n_updates A - 1) @
                        ''/distribution_new_covar.txt'', MatrixXd (covar (distribution st)))
                       \<in> set (files w_end)))))"
proof -
  from assms obtain st_p where
    p: "after_updates E A h w (nat (n_updates A) - 1) = Inr st_p"
    and step: "update_step E A (nat (n_updates A) - 1) st_p = Inr st"
    by (rule last_pass)
  from assms(2) have i: "int (nat (n_updates A) - 1) = n_updates A - 1"
    by simp
  from pass_ends_with_update [OF step]
  have 1: "\<exists>d s c wts. last (calls st) = UpdateDistribution d s c wts (distribution st)"
    by blast
  have 2: "run_loop E A h w' = Inl FilesystemError \<or>
      (\<exists>st'. run_loop E A h w' = Inr st' \<and> distribution st' = distribution st)" for w'
  proof -
    from assms(1) have "after_updates E A h w (nat (n_updates A)) = Inr st"
      by (simp add: run_loop_after_updates)
    from after_updates_world [OF this, of w'] show ?thesis
      by (auto simp: run_loop_after_updates)
  qed
  define w_end where "w_end =
    (if save_directory A \<noteq> [] then
       snd (saveMatrix (save_directory A) ''learning_curve.txt'' (MatrixXd (learning_curve st))
              (overwrite A) (world st))
     else world st)"
  have w_end: "runOptimization E A h w = Inr (w_end, hidden st)"
    using assms(1) by (simp add: runOptimization_def w_end_def)
  have keeps: "save_directory A \<noteq> [] \<longrightarrow> set (files (world st)) \<subseteq> set (files w_end)"
    using saveMatrix_keeps_files by (simp add: w_end_def)
  have 3: "\<exists>st_p saved.
      after_updates E A h w (nat (n_updates A) - 1) = Inr st_p \<and>
      saveToDirectory1 (save_directory A) (n_updates A - 1) (distribution st_p)
        (Some (cost_eval st)) (samples st) (costs st) (weights st) (distribution st)
        (default_overwrite E) (world st_p) = Inr (saved, world st) \<and>
      (saved \<longrightarrow>
         (update_directory (save_directory A) (n_updates A - 1) @
            ''/distribution_new_mean.txt'', VectorXd (mean (distribution st)))
           \<in> set (files w_end) \<and>
         (update_directory (save_directory A) (n_updates A - 1) @
            ''/distribution_new_covar.txt'', MatrixXd (covar (distribution st)))
           \<in> set (files w_end))"
    if full: "save_directory A \<noteq> [] \<and> \<not> only_learning_curve A"
  proof -
    from pass_saves [OF step] full i obtain saved where
      save: "saveToDirectory1 (save_directory A) (n_updates A - 1) (distribution st_p)
        (Some (cost_eval st)) (samples st) (costs st) (weights st) (distribution st)
        (default_overwrite E) (world st_p) = Inr (saved, world st)"
      by auto
    have "(update_directory (save_directory A) (n_updates A - 1) @
            ''/distribution_new_mean.txt'', VectorXd (mean (distribution st)))
           \<in> set (files w_end) \<and>
         (update_directory (save_directory A) (n_updates A - 1) @
            ''/distribution_new_covar.txt'', MatrixXd (covar (distribution st)))
           \<in> set (files w_end)" if saved
    proof -
      from save that have "saveToDirectory1 (save_directory A) (n_updates A - 1)
          (distribution st_p) (Some (cost_eval st)) (samples st) (costs st) (weights st)
          (distribution st) (default_overwrite E) (world st_p) = Inr (True, world st)"
        by simp
      from saveToDirectory1_saved [OF this] keeps full show ?thesis
        by auto
    qed
    with p save show ?thesis by blast
  qed
  from 1 2 3 w_end show ?thesis by blast
qed

lemma one_update_start:
  "after_updates halving one_update 0 empty_disk 0 =
     Inr \<lparr>distribution = shifted_normal, distribution_new = shifted_normal,
          cost_eval = 0, samples = [], costs = [0], weights = [],
          learning_curve = [[0, 0, 0]], hidden = 0, world = empty_disk, calls = []\<rparr>"
  by (simp add: loop_eval one_update_def)

lemma first_checkpoint:
  "saveToDirectory1 ''out'' 0 shifted_normal (Some 5) [[2, 3]] [13] [1]
     \<lparr>mean = [1 / 2, 1], covar = [[1, 0], [0, 1]]\<rparr> False empty_disk =
   Inr (True, checkpointed_disk)"
  by (simp add: saveToDirectory1_def writer_eval checkpointed_disk_def)

lemma one_update_full:
  "after_updates halving one_update 0 empty_disk (Suc 0) = Inr one_update_end"
proof -
  have save: "saveToDirectory1 ''out'' 0 \<lparr>mean = [1, 2], covar = [[1, 0], [0, 1]]\<rparr> (Some 5)
      [[2, 3]] [13] [1] \<lparr>mean = [1 / 2, 1], covar = [[1, 0], [0, 1]]\<rparr> False
      \<lparr>directories = [], files = [], mkdir_throws = {}, mkdir_false = {}, write_fails = {},
         cerr = [], cout = []\<rparr> =
    Inr (True, checkpointed_disk)"
    using first_checkpoint by (simp add: shifted_normal_def empty_disk_def)
  show ?thesis
    by (simp add: loop_eval one_update_def save int_times_def as_int_def set_coeff_def
          update_learning_curve_def one_update_end_def)
qed

theorem final_distribution_in_loop_witness:
  "\<exists>st w_end. run_loop halving one_update 0 empty_disk = Inr st \<and> 0 < n_updates one_update \<and>
     distribution st = \<lparr>mean = [1 / 2, 1], covar = [[1, 0], [0, 1]]\<rparr> \<and>
     runOptimization halving one_update 0 empty_disk = Inr (w_end, hidden st) \<and>
     save_directory one_update \<noteq> [] \<and> \<not> only_learning_curve one_update \<and>
     (''out/update00000/distribution_new_mean.txt'', VectorXd [1 / 2, 1]) \<in> set (files w_end) \<and>
     (''out/update00000/distribution_new_covar.txt'', MatrixXd [[1, 0], [0, 1]])
       \<in> set (files w_end)"
proof -
  have args: "0 < n_updates one_update" "save_directory one_update \<noteq> []"
    "\<not> only_learning_curve one_update"
    and known: "nat (n_updates one_update) = Suc 0" "n_updates one_update - 1 = 0"
    "save_directory one_update = ''out''" "default_overwrite halving = False"
    by (simp_all add: one_update_def two_updates_def halving_def)
  have run: "run_loop halving one_update 0 empty_disk = Inr one_update_end"
    using one_update_full by (simp only: run_loop_after_updates known)
  have fields: "distribution one_update_end = \<lparr>mean = [1 / 2, 1], covar = [[1, 0], [0, 1]]\<rparr>"
    "cost_eval one_update_end = 5" "samples one_update_end = [[2, 3]]"
    "costs one_update_end = [13]" "weights one_update_end = [1]"
    "world one_update_end = checkpointed_disk"
    by (simp_all add: one_update_end_def)
  from final_distribution_in_loop [OF run args(1)] args(2, 3) obtain w_end st_p saved where
    ret: "runOptimization halving one_update 0 empty_disk = Inr (w_end, hidden one_update_end)"
    and start: "after_updates halving one_update 0 empty_disk (nat (n_updates one_update) - 1) =
      Inr st_p"
    and save: "saveToDirectory1 (save_directory one_update) (n_updates one_update - 1)
      (distribution st_p) (Some (cost_eval one_update_end)) (samples one_update_end)
      (costs one_update_end) (weights one_update_end) (distribution one_update_end)
      (default_overwrite halving) (world st_p) = Inr (saved, world one_update_end)"
    and files: "saved \<longrightarrow>
      (update_directory (save_directory one_update) (n_updates one_update - 1) @
         ''/distribution_new_mean.txt'', VectorXd (mean (distribution one_update_end)))
        \<in> set (files w_end) \<and>
      (update_directory (save_directory one_update) (n_updates one_update - 1) @
         ''/distribution_new_covar.txt'', MatrixXd (covar (distribution one_update_end)))
        \<in> set (files w_end)"
    by blast
  from start one_update_start have "distribution st_p = shifted_normal" "world st_p = empty_disk"
    by (auto simp: known)
  with save first_checkpoint have saved
    by (simp add: known fields)
  with files have "(''out/update00000/distribution_new_mean.txt'', VectorXd [1 / 2, 1])
        \<in> set (files w_end) \<and>
      (''out/update00000/distribution_new_covar.txt'', MatrixXd [[1, 0], [0, 1]])
        \<in> set (files w_end)"
    by (simp add: known fields update_directory_def print_int_def decimal_digit digit_chars
          replicate_numeral)
  with run ret args fields(1) show ?thesis
    by blast
qed




section \<open>The checkpoint writer: claims C7, C8 and C9\<close>

text \<open>
  C7, as the claim states it, does not hold: the five and the three digits are least
  widths. A call with the index 100000 returns true and its directory is
  \<open>update100000\<close>, of six digits; with the index \<open>-1\<close> it is \<open>update000-1\<close>, since the
  fill goes before the sign; and the loop over 1001 distributions writes the files of the
  distribution 1000 with four digits.
\<close>

theorem update_directory_six_digits:
  "saveToDirectory ''out'' 100000 [standard_normal] None [] [] [] [shifted_normal] False
     empty_disk =
   Inr (True, empty_disk\<lparr>directories := [''out'', ''out/update100000''],
     files := [(''out/update100000/distribution_mean.txt'', VectorXd [0, 0]),
               (''out/update100000/distribution_covar.txt'', MatrixXd [[1, 0], [0, 1]]),
               (''out/update100000/distribution_new_mean.txt'', VectorXd [1, 2]),
               (''out/update100000/distribution_new_covar.txt'', MatrixXd [[1, 0], [0, 1]])]\<rparr>) \<and>
   saveToDirectory ''out'' (- 1) [standard_normal] None [] [] [] [shifted_normal] False
     empty_disk =
   Inr (True, empty_disk\<lparr>directories := [''out'', ''out/update000-1''],
     files := [(''out/update000-1/distribution_mean.txt'', VectorXd [0, 0]),
               (''out/update000-1/distribution_covar.txt'', MatrixXd [[1, 0], [0, 1]]),
               (''out/update000-1/distribution_new_mean.txt'', VectorXd [1, 2]),
               (''out/update000-1/distribution_new_covar.txt'', MatrixXd [[1, 0], [0, 1]])]\<rparr>) \<and>
   save_parallel ''out/update00000'' ''/distribution_'' (replicate 1001 standard_normal) 1001 1000
     False empty_disk =
   (True, empty_disk\<lparr>files :=
      [(''out/update00000//distribution_1000_mean.txt'', VectorXd [0, 0]),
       (''out/update00000//distribution_1000_covar.txt'', MatrixXd [[1, 0], [0, 1]])]\<rparr>)"
  by (intro conjI run_large_index run_negative_index run_last_of_1001)

text \<open>
  C7, amended. \<open>saveToDirectory\<close> chooses the layout from the number of distributions
  alone. A call
  that returns true has made the update's directory and has added to the files exactly
  the layout \<open>checkpoint_files\<close>, all under that directory. With one distribution these are
  \<open>distribution_mean.txt\<close> and \<open>distribution_covar.txt\<close>, the optional files, and the two
  files of the new distribution. With any other number they are \<open>n_parallel.txt\<close>, holding
  the one-element vector of the count, the files of each distribution, the optional
  files, and the files of the new distributions. The index of a distribution is printed
  with at least three digits: exactly three, filled with zeros, below 1000, and all its
  digits, more than three, from 1000 on. The update's directory is named \<open>update\<close> and
  the index printed with at least five characters: exactly five digits, filled with
  zeros, from 0 to 99999; all its digits, more than five, from 100000 on; and for a
  negative index the zeros, then the sign, then the digits. The digits are those of the
  index: read back, they give its value.
\<close>

theorem saveToDirectory_layout:
  assumes "saveToDirectory directory i_update ds ce xs cs ws ds_new ow w =
           Inr (True, w')"
  shows "files w' = files w @ map (in_dir (update_directory directory i_update))
                      (checkpoint_files ds ce xs cs ws ds_new) \<and>
         path_exists w' (update_directory directory i_update) \<and>
         (length ds = 1 \<longrightarrow>
            checkpoint_files ds ce xs cs ws ds_new =
              [(''distribution_mean.txt'', VectorXd (mean (ds ! 0))),
               (''distribution_covar.txt'', MatrixXd (covar (ds ! 0)))] @
              optional_files ce xs cs ws @
              [(''distribution_new_mean.txt'', VectorXd (mean (ds_new ! 0))),
               (''distribution_new_covar.txt'', MatrixXd (covar (ds_new ! 0)))]) \<and>
         (length ds \<noteq> 1 \<longrightarrow>
            checkpoint_files ds ce xs cs ws ds_new =
              (''n_parallel.txt'', VectorXi [int (length ds)]) #
              concat (map (indexed_files ''/distribution_'' ds) [0..<length ds]) @
              optional_files ce xs cs ws @
              concat (map (indexed_files ''/distribution_new_'' ds_new) [0..<length ds])) \<and>
         (\<forall>dd<1000. \<forall>label dl. indexed_files label dl dd =
              [(label @ last_digits 3 dd @ ''_mean.txt'', VectorXd (mean (dl ! dd))),
               (label @ last_digits 3 dd @ ''_covar.txt'', MatrixXd (covar (dl ! dd)))]) \<and>
         (\<forall>dd\<ge>1000. \<forall>label dl. indexed_files label dl dd =
              [(label @ decimal dd @ ''_mean.txt'', VectorXd (mean (dl ! dd))),
               (label @ decimal dd @ ''_covar.txt'', MatrixXd (covar (dl ! dd)))] \<and>
              3 < length (decimal dd)) \<and>
         (0 \<le> i_update \<and> i_update < 100000 \<longrightarrow>
            update_directory directory i_update =
              directory @ ''/update'' @ last_digits 5 (nat i_update)) \<and>
         (100000 \<le> i_update \<longrightarrow>
            update_directory directory i_update =
              directory @ ''/update'' @ decimal (nat i_update) \<and>
            5 < length (decimal (nat i_update))) \<and>
         (i_update < 0 \<longrightarrow>
            update_directory directory i_update =
              directory @ ''/update'' @
              replicate (4 - length (decimal (nat (- i_update)))) CHR ''0'' @
              CHR ''-'' # decimal (nat (- i_update))) \<and>
         (\<forall>k n. length (last_digits k n) = k \<and> all_digits (last_digits k n) \<and>
            digits_value (last_digits k n) = n mod 10 ^ k) \<and>
         (\<forall>n. all_digits (decimal n) \<and> digits_value (decimal n) = n)"
proof -
  from saveToDirectory_outcome [OF assms]
  have 1: "files w' = files w @ map (in_dir (update_directory directory i_update))
                      (checkpoint_files ds ce xs cs ws ds_new)"
    by auto
  have 2: "path_exists w' (update_directory directory i_update)"
    using assms by (rule saveToDirectory_made)
  have "length ds = length ds_new"
    using assms by (cases rule: saveToDirectory_cases) simp_all
  then have 4: "length ds \<noteq> 1 \<longrightarrow>
            checkpoint_files ds ce xs cs ws ds_new =
              (''n_parallel.txt'', VectorXi [int (length ds)]) #
              concat (map (indexed_files ''/distribution_'' ds) [0..<length ds]) @
              optional_files ce xs cs ws @
              concat (map (indexed_files ''/distribution_new_'' ds_new) [0..<length ds])"
    by (simp add: checkpoint_files_def parallel_files_def)
  have 3: "length ds = 1 \<longrightarrow>
            checkpoint_files ds ce xs cs ws ds_new =
              [(''distribution_mean.txt'', VectorXd (mean (ds ! 0))),
               (''distribution_covar.txt'', MatrixXd (covar (ds ! 0)))] @
              optional_files ce xs cs ws @
              [(''distribution_new_mean.txt'', VectorXd (mean (ds_new ! 0))),
               (''distribution_new_covar.txt'', MatrixXd (covar (ds_new ! 0)))]"
    by (simp add: checkpoint_files_def single_files_def)
  have 5: "\<forall>dd<1000. \<forall>label dl. indexed_files label dl dd =
              [(label @ last_digits 3 dd @ ''_mean.txt'', VectorXd (mean (dl ! dd))),
               (label @ last_digits 3 dd @ ''_covar.txt'', MatrixXd (covar (dl ! dd)))]"
    using indexed_files_digits by blast
  have 6: "\<forall>dd\<ge>1000. \<forall>label dl. indexed_files label dl dd =
              [(label @ decimal dd @ ''_mean.txt'', VectorXd (mean (dl ! dd))),
               (label @ decimal dd @ ''_covar.txt'', MatrixXd (covar (dl ! dd)))] \<and>
              3 < length (decimal dd)"
    using indexed_files_large by blast
  have 7: "0 \<le> i_update \<and> i_update < 100000 \<longrightarrow>
            update_directory directory i_update =
              directory @ ''/update'' @ last_digits 5 (nat i_update)"
    using update_directory_digits by blast
  have 8: "100000 \<le> i_update \<longrightarrow>
            update_directory directory i_update =
              directory @ ''/update'' @ decimal (nat i_update) \<and>
            5 < length (decimal (nat i_update))"
    using update_directory_large by blast
  have 9: "i_update < 0 \<longrightarrow>
            update_directory directory i_update =
              directory @ ''/update'' @
              replicate (4 - length (decimal (nat (- i_update)))) CHR ''0'' @
              CHR ''-'' # decimal (nat (- i_update))"
    using update_directory_negative by blast
  have 10: "\<forall>k n. length (last_digits k n) = k \<and> all_digits (last_digits k n) \<and>
            digits_value (last_digits k n) = n mod 10 ^ k"
    by (simp add: length_last_digits all_digits_last_digits digits_value_last_digits)
  have 11: "\<forall>n. all_digits (decimal n) \<and> digits_value (decimal n) = n"
    by (simp add: all_digits_decimal digits_value_decimal)
  from 1 2 3 4 5 6 7 8 9 10 11 show ?thesis
    by (intro conjI)
qed

theorem saveToDirectory_layout_witness:
  "saveToDirectory ''out'' 7 [standard_normal] (Some 0) [[1, 2]] [5] [1] [shifted_normal] False
     empty_disk =
   Inr (True, empty_disk\<lparr>directories := [''out'', ''out/update00007''],
     files := [(''out/update00007/distribution_mean.txt'', VectorXd [0, 0]),
               (''out/update00007/distribution_covar.txt'', MatrixXd [[1, 0], [0, 1]]),
               (''out/update00007/cost_eval.txt'', VectorXd [0]),
               (''out/update00007/samples.txt'', MatrixXd [[1, 2]]),
               (''out/update00007/costs.txt'', VectorXd [5]),
               (''out/update00007/weights.txt'', VectorXd [1]),
               (''out/update00007/distribution_new_mean.txt'', VectorXd [1, 2]),
               (''out/update00007/distribution_new_covar.txt'', MatrixXd [[1, 0], [0, 1]])]\<rparr>) \<and>
   update_directory ''out'' 7 = ''out/update00007'' \<and>
   checkpoint_files [standard_normal] (Some 0) [[1, 2]] [5] [1] [shifted_normal] =
     [(''distribution_mean.txt'', VectorXd [0, 0]),
      (''distribution_covar.txt'', MatrixXd [[1, 0], [0, 1]]),
      (''cost_eval.txt'', VectorXd [0]),
      (''samples.txt'', MatrixXd [[1, 2]]),
      (''costs.txt'', VectorXd [5]),
      (''weights.txt'', VectorXd [1]),
      (''distribution_new_mean.txt'', VectorXd [1, 2]),
      (''distribution_new_covar.txt'', MatrixXd [[1, 0], [0, 1]])] \<and>
   saveToDirectory ''out'' 7 [standard_normal, shifted_normal] None [] [] []
     [shifted_normal, standard_normal] False empty_disk =
   Inr (True, empty_disk\<lparr>directories := [''out'', ''out/update00007''],
     files := [(''out/update00007/n_parallel.txt'', VectorXi [2]),
               (''out/update00007//distribution_000_mean.txt'', VectorXd [0, 0]),
               (''out/update00007//distribution_000_covar.txt'', MatrixXd [[1, 0], [0, 1]]),
               (''out/update00007//distribution_001_mean.txt'', VectorXd [1, 2]),
               (''out/update00007//distribution_001_covar.txt'', MatrixXd [[1, 0], [0, 1]]),
               (''out/update00007//distribution_new_000_mean.txt'', VectorXd [1, 2]),
               (''out/update00007//distribution_new_000_covar.txt'', MatrixXd [[1, 0], [0, 1]]),
               (''out/update00007//distribution_new_001_mean.txt'', VectorXd [0, 0]),
               (''out/update00007//distribution_new_001_covar.txt'', MatrixXd [[1, 0], [0, 1]])]\<rparr>) \<and>
   checkpoint_files [standard_normal, shifted_normal] None [] [] []
       [shifted_normal, standard_normal] ! 0 =
     (''n_parallel.txt'', VectorXi [2]) \<and>
   map fst (indexed_files ''/distribution_'' [standard_normal, shifted_normal] 1) =
     [''/distribution_001_mean.txt'', ''/distribution_001_covar.txt''] \<and>
   map fst (indexed_files ''/distribution_'' [standard_normal, shifted_normal] 1000) =
     [''/distribution_1000_mean.txt'', ''/distribution_1000_covar.txt''] \<and>
   saveToDirectory ''out'' 100000 [standard_normal] None [] [] [] [shifted_normal] False
     empty_disk =
   Inr (True, empty_disk\<lparr>directories := [''out'', ''out/update100000''],
     files := [(''out/update100000/distribution_mean.txt'', VectorXd [0, 0]),
               (''out/update100000/distribution_covar.txt'', MatrixXd [[1, 0], [0, 1]]),
               (''out/update100000/distribution_new_mean.txt'', VectorXd [1, 2]),
               (''out/update100000/distribution_new_covar.txt'', MatrixXd [[1, 0], [0, 1]])]\<rparr>) \<and>
   update_directory ''out'' 100000 = ''out/update100000'' \<and>
   saveToDirectory ''out'' (- 1) [standard_normal] None [] [] [] [shifted_normal] False
     empty_disk =
   Inr (True, empty_disk\<lparr>directories := [''out'', ''out/update000-1''],
     files := [(''out/update000-1/distribution_mean.txt'', VectorXd [0, 0]),
               (''out/update000-1/distribution_covar.txt'', MatrixXd [[1, 0], [0, 1]]),
               (''out/update000-1/distribution_new_mean.txt'', VectorXd [1, 2]),
               (''out/update000-1/distribution_new_covar.txt'', MatrixXd [[1, 0], [0, 1]])]\<rparr>) \<and>
   update_directory ''out'' (- 1) = ''out/update000-1''"
proof -
  note single = saveToDirectory_layout [OF run_single]
  note parallel = saveToDirectory_layout [OF run_parallel]
  note large = saveToDirectory_layout [OF run_large_index]
  note negative = saveToDirectory_layout [OF run_negative_index]
  from single have "update_directory ''out'' 7 = ''out'' @ ''/update'' @ last_digits 5 (nat 7)"
    by simp
  then have dir: "update_directory ''out'' 7 = ''out/update00007''"
    by (simp add: last_digits_numeral digit_chars digit_char_def)
  from large have "update_directory ''out'' 100000 =
      ''out'' @ ''/update'' @ decimal (nat 100000)"
    by simp
  then have dir_large: "update_directory ''out'' 100000 = ''out/update100000''"
    by (simp add: decimal_100000)
  from negative have "update_directory ''out'' (- 1) =
      ''out'' @ ''/update'' @ replicate (4 - length (decimal (nat (- (- 1))))) CHR ''0'' @
      CHR ''-'' # decimal (nat (- (- 1)))"
    by simp
  then have dir_negative: "update_directory ''out'' (- 1) = ''out/update000-1''"
    by (simp add: decimal_digit digit_chars replicate_numeral)
  from single have layout:
    "checkpoint_files [standard_normal] (Some 0) [[1, 2]] [5] [1] [shifted_normal] =
     [(''distribution_mean.txt'', VectorXd (mean ([standard_normal] ! 0))),
      (''distribution_covar.txt'', MatrixXd (covar ([standard_normal] ! 0)))] @
     optional_files (Some 0) [[1, 2]] [5] [1] @
     [(''distribution_new_mean.txt'', VectorXd (mean ([shifted_normal] ! 0))),
      (''distribution_new_covar.txt'', MatrixXd (covar ([shifted_normal] ! 0)))]"
    by simp
  from parallel have first:
    "checkpoint_files [standard_normal, shifted_normal] None [] [] []
       [shifted_normal, standard_normal] ! 0 = (''n_parallel.txt'', VectorXi [2])"
    by simp
  from parallel have "indexed_files ''/distribution_'' [standard_normal, shifted_normal] 1 =
      [(''/distribution_'' @ last_digits 3 1 @ ''_mean.txt'',
          VectorXd (mean ([standard_normal, shifted_normal] ! 1))),
       (''/distribution_'' @ last_digits 3 1 @ ''_covar.txt'',
          MatrixXd (covar ([standard_normal, shifted_normal] ! 1)))]"
    by simp
  then have small: "map fst (indexed_files ''/distribution_'' [standard_normal, shifted_normal] 1) =
     [''/distribution_001_mean.txt'', ''/distribution_001_covar.txt'']"
    by (simp add: last_digits_numeral digit_chars digit_char_def)
  from parallel have "indexed_files ''/distribution_'' [standard_normal, shifted_normal] 1000 =
      [(''/distribution_'' @ decimal 1000 @ ''_mean.txt'',
          VectorXd (mean ([standard_normal, shifted_normal] ! 1000))),
       (''/distribution_'' @ decimal 1000 @ ''_covar.txt'',
          MatrixXd (covar ([standard_normal, shifted_normal] ! 1000)))]"
    by simp
  then have big: "map fst (indexed_files ''/distribution_'' [standard_normal, shifted_normal] 1000) =
     [''/distribution_1000_mean.txt'', ''/distribution_1000_covar.txt'']"
    by (simp add: decimal_1000)
  from layout have files:
    "checkpoint_files [standard_normal] (Some 0) [[1, 2]] [5] [1] [shifted_normal] =
     [(''distribution_mean.txt'', VectorXd [0, 0]),
      (''distribution_covar.txt'', MatrixXd [[1, 0], [0, 1]]),
      (''cost_eval.txt'', VectorXd [0]),
      (''samples.txt'', MatrixXd [[1, 2]]),
      (''costs.txt'', VectorXd [5]),
      (''weights.txt'', VectorXd [1]),
      (''distribution_new_mean.txt'', VectorXd [1, 2]),
      (''distribution_new_covar.txt'', MatrixXd [[1, 0], [0, 1]])]"
    by (simp add: optional_files_def matrix_size_def matrix_rows_def matrix_cols_def
          standard_normal_def shifted_normal_def)
  show ?thesis
    by (intro conjI run_single run_parallel run_large_index run_negative_index dir dir_large
          dir_negative first files small big)
qed

text \<open>
  C8. \<open>saveToDirectory\<close> skips each optional field that is absent or empty. Without a
  probe-cost pointer no \<open>cost_eval.txt\<close> is written and nothing is reported about it, and
  the same holds for \<open>samples.txt\<close>, \<open>costs.txt\<close> and \<open>weights.txt\<close> when the
  matrix or vector has size zero. A call that returns true has written each of these files
  whose field is present and not empty.
\<close>

theorem saveToDirectory_optional_fields:
  assumes "saveToDirectory directory i_update ds ce xs cs ws ds_new ow w =
           Inr (ok, w')"
  shows "(ce = None \<longrightarrow>
            update_directory directory i_update @ ''/cost_eval.txt'' \<notin> fst ` set (written_by w w') \<and>
            CouldntSave (update_directory directory i_update @ ''/cost_eval.txt'') \<notin>
              set (reported_by w w')) \<and>
         (matrix_size xs = 0 \<longrightarrow>
            update_directory directory i_update @ ''/samples.txt'' \<notin> fst ` set (written_by w w') \<and>
            CouldntSave (update_directory directory i_update @ ''/samples.txt'') \<notin>
              set (reported_by w w')) \<and>
         (length cs = 0 \<longrightarrow>
            update_directory directory i_update @ ''/costs.txt'' \<notin> fst ` set (written_by w w') \<and>
            CouldntSave (update_directory directory i_update @ ''/costs.txt'') \<notin>
              set (reported_by w w')) \<and>
         (length ws = 0 \<longrightarrow>
            update_directory directory i_update @ ''/weights.txt'' \<notin> fst ` set (written_by w w') \<and>
            CouldntSave (update_directory directory i_update @ ''/weights.txt'') \<notin>
              set (reported_by w w')) \<and>
         (ok \<longrightarrow>
            (\<forall>c. ce = Some c \<longrightarrow>
               (update_directory directory i_update @ ''/cost_eval.txt'', VectorXd [c]) \<in>
                 set (written_by w w')) \<and>
            (matrix_size xs > 0 \<longrightarrow>
               (update_directory directory i_update @ ''/samples.txt'', MatrixXd xs) \<in>
                 set (written_by w w')) \<and>
            (length cs > 0 \<longrightarrow>
               (update_directory directory i_update @ ''/costs.txt'', VectorXd cs) \<in>
                 set (written_by w w')) \<and>
            (length ws > 0 \<longrightarrow>
               (update_directory directory i_update @ ''/weights.txt'', VectorXd ws) \<in>
                 set (written_by w w')))"
proof -
  let ?dir = "update_directory directory i_update"
  let ?L = "checkpoint_files ds ce xs cs ws ds_new"
  let ?O = "optional_files ce xs cs ws"
  from saveToDirectory_outcome [OF assms] obtain k where k: "k \<le> length ?L"
    and files: "files w' = files w @ map (in_dir ?dir) (take k ?L)"
    and ok: "ok \<longleftrightarrow> k = length ?L"
    and cerr: "if ok then cerr w' = cerr w
       else cerr w' = cerr w @ [CouldntMakeDirectory directory] \<and> k = 0 \<or>
            cerr w' = cerr w @ [CouldntMakeDirectory ?dir] \<and> k = 0 \<or>
            cerr w' = cerr w @ [CouldntSave (fst (in_dir ?dir (?L ! k)))]"
    by blast
  have written: "written_by w w' = map (in_dir ?dir) (take k ?L)"
    by (simp add: written_by_def files)
  have skipped: "?dir @ ''/'' @ name \<notin> fst ` set (written_by w w') \<and>
      CouldntSave (?dir @ ''/'' @ name) \<notin> set (reported_by w w')"
    if name: "name \<in> {''cost_eval.txt'', ''samples.txt'', ''costs.txt'', ''weights.txt''}"
      and absent: "name \<notin> fst ` set ?O" for name
  proof -
    from optional_name_checkpoint_files [OF name] absent have out: "name \<notin> fst ` set ?L"
      by simp
    then have "name \<notin> fst ` set (take k ?L)"
      using set_take_subset [of k ?L] by blast
    then have a: "?dir @ ''/'' @ name \<notin> fst ` set (written_by w w')"
      by (simp only: written in_dir_name not_False_eq_True)
    have b: "CouldntSave (?dir @ ''/'' @ name) \<notin> set (reported_by w w')"
    proof (cases ok)
      case True
      with cerr show ?thesis by (simp add: reported_by_def)
    next
      case False
      with ok k have "k < length ?L" by simp
      then have "?L ! k \<in> set ?L" by simp
      with out have "fst (?L ! k) \<noteq> name" by force
      with False cerr show ?thesis
        by (auto simp: reported_by_def in_dir_def)
    qed
    from a b show ?thesis ..
  qed
  have present: "(?dir @ ''/'' @ fst e, snd e) \<in> set (written_by w w')"
    if "ok" and "e \<in> set ?O" for e
  proof -
    from that(2) have "e \<in> set ?L"
      by (simp add: checkpoint_files_def)
    with that(1) ok have "in_dir ?dir e \<in> set (written_by w w')"
      by (simp add: written)
    then show ?thesis by (simp add: in_dir_def)
  qed
  have 1: "ce = None \<longrightarrow>
      ?dir @ ''/cost_eval.txt'' \<notin> fst ` set (written_by w w') \<and>
      CouldntSave (?dir @ ''/cost_eval.txt'') \<notin> set (reported_by w w')"
    using skipped [of "''cost_eval.txt''"] by (simp add: optional_files_names)
  have 2: "matrix_size xs = 0 \<longrightarrow>
      ?dir @ ''/samples.txt'' \<notin> fst ` set (written_by w w') \<and>
      CouldntSave (?dir @ ''/samples.txt'') \<notin> set (reported_by w w')"
    using skipped [of "''samples.txt''"] by (simp add: optional_files_names)
  have 3: "length cs = 0 \<longrightarrow>
      ?dir @ ''/costs.txt'' \<notin> fst ` set (written_by w w') \<and>
      CouldntSave (?dir @ ''/costs.txt'') \<notin> set (reported_by w w')"
    using skipped [of "''costs.txt''"] by (simp add: optional_files_names)
  have 4: "length ws = 0 \<longrightarrow>
      ?dir @ ''/weights.txt'' \<notin> fst ` set (written_by w w') \<and>
      CouldntSave (?dir @ ''/weights.txt'') \<notin> set (reported_by w w')"
    using skipped [of "''weights.txt''"] by (simp add: optional_files_names)
  have 5: "ok \<longrightarrow> (\<forall>c. ce = Some c \<longrightarrow>
      (?dir @ ''/cost_eval.txt'', VectorXd [c]) \<in> set (written_by w w'))"
    using present [of "(''cost_eval.txt'', VectorXd [the ce])"]
    by (auto simp: optional_files_def)
  have 6: "ok \<longrightarrow> matrix_size xs > 0 \<longrightarrow>
      (?dir @ ''/samples.txt'', MatrixXd xs) \<in> set (written_by w w')"
    using present [of "(''samples.txt'', MatrixXd xs)"]
    by (auto simp: optional_files_def)
  have 7: "ok \<longrightarrow> length cs > 0 \<longrightarrow>
      (?dir @ ''/costs.txt'', VectorXd cs) \<in> set (written_by w w')"
    using present [of "(''costs.txt'', VectorXd cs)"]
    by (auto simp: optional_files_def)
  have 8: "ok \<longrightarrow> length ws > 0 \<longrightarrow>
      (?dir @ ''/weights.txt'', VectorXd ws) \<in> set (written_by w w')"
    using present [of "(''weights.txt'', VectorXd ws)"]
    by (auto simp: optional_files_def)
  from 1 2 3 4 5 6 7 8 show ?thesis by blast
qed

theorem saveToDirectory_optional_fields_witness:
  "(case saveToDirectory ''out'' 7 [standard_normal] None [] [] [] [shifted_normal] False
           empty_disk of
      Inl e \<Rightarrow> False
    | Inr (ok, w') \<Rightarrow>
        ok \<and>
        ''out/update00007/cost_eval.txt'' \<notin> fst ` set (written_by empty_disk w') \<and>
        ''out/update00007/samples.txt'' \<notin> fst ` set (written_by empty_disk w') \<and>
        ''out/update00007/costs.txt'' \<notin> fst ` set (written_by empty_disk w') \<and>
        ''out/update00007/weights.txt'' \<notin> fst ` set (written_by empty_disk w') \<and>
        reported_by empty_disk w' = []) \<and>
   (case saveToDirectory ''out'' 7 [standard_normal] (Some 0) [[1, 2]] [5] [1] [shifted_normal]
           False empty_disk of
      Inl e \<Rightarrow> False
    | Inr (ok, w') \<Rightarrow>
        ok \<and>
        (''out/update00007/cost_eval.txt'', VectorXd [0]) \<in> set (written_by empty_disk w') \<and>
        (''out/update00007/samples.txt'', MatrixXd [[1, 2]]) \<in> set (written_by empty_disk w') \<and>
        (''out/update00007/costs.txt'', VectorXd [5]) \<in> set (written_by empty_disk w') \<and>
        (''out/update00007/weights.txt'', VectorXd [1]) \<in> set (written_by empty_disk w'))"
proof -
  have bare: ?thesis if "saveToDirectory ''out'' 7 [standard_normal] None [] [] []
      [shifted_normal] False empty_disk = Inr (True, u)"
    and "saveToDirectory ''out'' 7 [standard_normal] (Some 0) [[1, 2]] [5] [1] [shifted_normal]
      False empty_disk = Inr (True, v)"
    and "cerr u = []" for u v
    using saveToDirectory_optional_fields [OF that(1)] saveToDirectory_optional_fields [OF that(2)]
      that
    by (simp add: update_directory_7 matrix_size_def matrix_rows_def matrix_cols_def
          reported_by_def empty_disk_def)
  show ?thesis
    by (rule bare [OF run_bare run_single]) (simp add: empty_disk_def)
qed

text \<open>
  C9. A directory that cannot be made ends \<open>saveToDirectory\<close> by the exception of
  \<open>create_directories\<close>: the call on \<open>locked_disk\<close> returns neither true nor false. The
  branch that reports the directory and returns false is reached when
  \<open>create_directories\<close> returns false, as on \<open>raced_disk\<close>. A file that cannot be written,
  or that exists while overwriting is off, does make the call return false at that file,
  with the files before it written and none after it, under either spelling of its path.
\<close>

theorem saveToDirectory_refused_directory:
  "saveToDirectory ''out'' 7 [standard_normal] (Some 0) [[1, 2]] [5] [1] [shifted_normal] False
     locked_disk = Inl FilesystemError \<and>
   saveToDirectory ''out'' 7 [standard_normal] (Some 0) [[1, 2]] [5] [1] [shifted_normal] False
     raced_disk =
   Inr (False, raced_disk\<lparr>directories := [''out''], cerr := [CouldntMakeDirectory ''out'']\<rparr>) \<and>
   saveToDirectory ''out'' 7 [standard_normal] (Some 0) [[1, 2]] [5] [1] [shifted_normal] False
     full_disk =
   Inr (False, full_disk\<lparr>directories := [''out'', ''out/update00007''],
     files := [(''out/update00007/distribution_mean.txt'', VectorXd [0, 0]),
               (''out/update00007/distribution_covar.txt'', MatrixXd [[1, 0], [0, 1]])],
     cerr := [CouldntSave ''out/update00007/cost_eval.txt'']\<rparr>) \<and>
   saveToDirectory ''out'' 7 [standard_normal] (Some 0) [[1, 2]] [5] [1] [shifted_normal] False
     used_disk =
   Inr (False, used_disk\<lparr>cerr := [CouldntSave ''out/update00007/distribution_mean.txt'']\<rparr>) \<and>
   saveToDirectory ''out'' 7 [standard_normal, shifted_normal] None [] [] []
     [shifted_normal, standard_normal] False used_parallel_disk =
   Inr (False, used_parallel_disk\<lparr>
     files := [(''out/update00007/distribution_000_mean.txt'', VectorXd [9]),
               (''out/update00007/n_parallel.txt'', VectorXi [2])],
     cerr := [CouldntSave ''out/update00007//distribution_000_mean.txt'']\<rparr>)"
  by (intro conjI run_locked_disk run_raced_disk run_full_disk run_used_disk
        run_used_parallel_disk)

section \<open>The rollouts: claim C10\<close>




end
